theory Spec2Isabelle
  imports Complex_Main "HOL-Library.Sublist" "HOL-Library.Multiset"
begin

section \<open>Python values, exceptions and library functions\<close>

subsection \<open>Floats\<close>

text \<open>
  A Python \<open>float\<close> is an IEEE 754 double: a finite double, an infinity or NaN.  A finite
  double is given by the real number that it denotes, so the two zeros are one value here
  (they compare equal and are both falsy).  The doubles around a number \<open>x\<close> with
  \<open>2\<^sup>e \<le> \<bar>x\<bar> < 2\<^sup>e\<^sup>+\<^sup>1\<close> are the multiples of \<open>2\<^sup>e\<^sup>-\<^sup>5\<^sup>2\<close>, and the multiples of
  \<open>2\<^sup>-\<^sup>1\<^sup>0\<^sup>7\<^sup>4\<close> below \<open>2\<^sup>-\<^sup>1\<^sup>0\<^sup>2\<^sup>2\<close>.  \<open>round_double\<close> is the rounding of IEEE 754 in its default
  mode: to the nearest double, a tie to the one with the even significand, and to an
  infinity from \<open>2\<^sup>1\<^sup>0\<^sup>2\<^sup>4\<close> on.  It gives the value of a decimal literal of the program
  or of a JSON text (\<open>0.01\<close> is \<open>round_double (1 / 100)\<close>) and the result of an arithmetic
  operation from its exact result.
\<close>

datatype pyfloat = Finite real | PosInf | NegInf | NaN

definition round_half_even :: "real \<Rightarrow> int" where
  "round_half_even y =
     (let n = \<lfloor>y\<rfloor> in
      if y - of_int n < 1 / 2 then n
      else if y - of_int n > 1 / 2 then n + 1
      else if even n then n else n + 1)"

definition double_exponent :: "real \<Rightarrow> int" where
  "double_exponent x = max \<lfloor>log 2 \<bar>x\<bar>\<rfloor> (- 1022)"

definition double_ulp :: "real \<Rightarrow> real" where
  "double_ulp x = 2 powi (double_exponent x - 52)"

definition round_double :: "real \<Rightarrow> pyfloat" where
  "round_double x =
     (if x = 0 then Finite 0
      else
        let r = of_int (round_half_even (x / double_ulp x)) * double_ulp x in
        if r \<ge> 2 ^ 1024 then PosInf
        else if r \<le> - (2 ^ 1024) then NegInf
        else Finite r)"

text \<open>Negation, \<open>x + y\<close>, \<open>x - y\<close> and \<open>abs(x)\<close> on floats.  NaN is contagious, and the
  sum of the two infinities is NaN.\<close>

fun float_neg :: "pyfloat \<Rightarrow> pyfloat" where
  "float_neg (Finite a) = Finite (- a)"
| "float_neg PosInf = NegInf"
| "float_neg NegInf = PosInf"
| "float_neg NaN = NaN"

fun float_plus :: "pyfloat \<Rightarrow> pyfloat \<Rightarrow> pyfloat" where
  "float_plus (Finite a) (Finite b) = round_double (a + b)"
| "float_plus NaN y = NaN"
| "float_plus x NaN = NaN"
| "float_plus PosInf NegInf = NaN"
| "float_plus NegInf PosInf = NaN"
| "float_plus PosInf y = PosInf"
| "float_plus NegInf y = NegInf"
| "float_plus (Finite a) y = y"

definition float_minus :: "pyfloat \<Rightarrow> pyfloat \<Rightarrow> pyfloat" where
  "float_minus x y = float_plus x (float_neg y)"

fun float_abs :: "pyfloat \<Rightarrow> pyfloat" where
  "float_abs (Finite a) = Finite \<bar>a\<bar>"
| "float_abs PosInf = PosInf"
| "float_abs NegInf = PosInf"
| "float_abs NaN = NaN"

text \<open>\<open>x > y\<close> on floats: every comparison with NaN is false.\<close>

fun float_gt :: "pyfloat \<Rightarrow> pyfloat \<Rightarrow> bool" where
  "float_gt (Finite a) (Finite b) = (a > b)"
| "float_gt NaN y = False"
| "float_gt x NaN = False"
| "float_gt x PosInf = False"
| "float_gt NegInf y = False"
| "float_gt PosInf y = True"
| "float_gt (Finite a) NegInf = True"

text \<open>\<open>x / y\<close> on floats for a divisor that is not zero.\<close>

fun float_divide :: "pyfloat \<Rightarrow> pyfloat \<Rightarrow> pyfloat" where
  "float_divide (Finite a) (Finite b) = round_double (a / b)"
| "float_divide NaN y = NaN"
| "float_divide x NaN = NaN"
| "float_divide (Finite a) y = Finite 0"
| "float_divide x (Finite b) = (if b > 0 then x else float_neg x)"
| "float_divide x y = NaN"

subsection \<open>JSON values\<close>

text \<open>
  The travel planner exchanges JSON with a language model and with a search service.
  A decoded JSON document is a Python value: \<open>None\<close>, a bool, an \<open>int\<close> (unbounded), a
  \<open>float\<close>, a string, a list or a dict.  A dict is an association list read with \<open>map_of\<close>
  (the first binding of a key is the one that counts).
\<close>

datatype json =
    JNull
  | JBool bool
  | JInt int
  | JFloat pyfloat
  | JStr string
  | JArr "json list"
  | JObj "(string \<times> json) list"

text \<open>
  Exceptions are values.  The payload is the message that \<open>str(e)\<close> is built from; the
  messages of exceptions raised by the interpreter itself (\<open>TypeError\<close>,
  \<open>AttributeError\<close>, \<open>IndexError\<close>) depend on its version and are only indicative.
\<close>

datatype exn =
    ValueError string
  | KeyError string
  | TypeError string
  | AttributeError string
  | IndexError string
  | ZeroDivisionError string
  | OverflowError string
  | RequestException string
  | HotelSearchError string
  | OtherError string

fun exn_str :: "exn \<Rightarrow> string" where
  "exn_str (ValueError m) = m"
| "exn_str (KeyError k) = [CHR 0x27] @ k @ [CHR 0x27]"
| "exn_str (TypeError m) = m"
| "exn_str (AttributeError m) = m"
| "exn_str (IndexError m) = m"
| "exn_str (ZeroDivisionError m) = m"
| "exn_str (OverflowError m) = m"
| "exn_str (RequestException m) = m"
| "exn_str (HotelSearchError m) = m"
| "exn_str (OtherError m) = m"

text \<open>Sequencing of fallible steps: the first exception ends the computation.\<close>

fun ebind :: "exn + 'a \<Rightarrow> ('a \<Rightarrow> exn + 'b) \<Rightarrow> exn + 'b" where
  "ebind (Inl e) f = Inl e"
| "ebind (Inr x) f = f x"

text \<open>
  A \<open>datetime\<close> in this program always comes from \<open>strptime\<close> with the format
  \<open>%Y-%m-%d\<close>, so its time of day is midnight; only the calendar date is kept.
  Comparison is that of \<open>datetime\<close>: by year, then month, then day.
\<close>

datatype datetime = DateTime (dt_year: nat) (dt_month: nat) (dt_day: nat)

definition datetime_less :: "datetime \<Rightarrow> datetime \<Rightarrow> bool" where
  "datetime_less a b \<longleftrightarrow>
     dt_year a < dt_year b \<or>
     (dt_year a = dt_year b \<and>
        (dt_month a < dt_month b \<or> (dt_month a = dt_month b \<and> dt_day a < dt_day b)))"

text \<open>
  The functions of the standard library and of third-party packages that the program
  calls are parameters of the model, collected in one record:
  \<^item> \<open>json_loads\<close> is \<open>json.loads\<close>; \<open>Inl m\<close> is a \<open>JSONDecodeError\<close> with message \<open>m\<close>;
  \<^item> \<open>strptime_ymd\<close> is \<open>datetime.strptime(_, "%Y-%m-%d")\<close> on a string; \<open>Inl m\<close> is its
    \<open>ValueError\<close>;
  \<^item> \<open>float_of_str\<close> is \<open>float\<close> on a string that holds a decimal numeral: the number
    that the double read denotes (\<open>None\<close>: \<open>ValueError\<close>);
  \<^item> \<open>str_of_float\<close> is \<open>str\<close> of a number, \<open>fmt_0f\<close> the format \<open>:.0f\<close>;
  \<^item> \<open>str_of_json\<close> is \<open>str\<close> of a value that is neither a string nor \<open>None\<close>;
  \<^item> \<open>date_str\<close> is \<open>str(d.date())\<close>, \<open>strftime_ymd\<close> is \<open>d.strftime("%Y-%m-%d")\<close>;
  \<^item> \<open>str_lower\<close> is \<open>str.lower\<close>;
  \<^item> \<open>re_search\<close> is \<open>re.search(pattern, text)\<close> followed by \<open>group(1)\<close> (\<open>None\<close>: no match).
\<close>

record pylib =
  json_loads :: "string \<Rightarrow> string + json"
  strptime_ymd :: "string \<Rightarrow> string + datetime"
  float_of_str :: "string \<Rightarrow> real option"
  str_of_float :: "real \<Rightarrow> string"
  fmt_0f :: "real \<Rightarrow> string"
  str_of_json :: "json \<Rightarrow> string"
  date_str :: "datetime \<Rightarrow> string"
  strftime_ymd :: "datetime \<Rightarrow> string"
  str_lower :: "string \<Rightarrow> string"
  re_search :: "string \<Rightarrow> string \<Rightarrow> string option"

subsection \<open>Operations on Python values\<close>

text \<open>Truthiness, as \<open>not x\<close> and \<open>x or y\<close> test it.\<close>

fun truthy :: "json \<Rightarrow> bool" where
  "truthy JNull = False"
| "truthy (JBool b) = b"
| "truthy (JInt i) = (i \<noteq> 0)"
| "truthy (JFloat x) = (x \<noteq> Finite 0)"
| "truthy (JStr s) = (s \<noteq> [])"
| "truthy (JArr xs) = (xs \<noteq> [])"
| "truthy (JObj kvs) = (kvs \<noteq> [])"

text \<open>\<open>d.get(k)\<close>: \<open>None\<close> for a missing key; a value that is not a dict has no \<open>get\<close>.\<close>

fun py_get :: "json \<Rightarrow> string \<Rightarrow> exn + json" where
  "py_get (JObj kvs) k = Inr (case map_of kvs k of None \<Rightarrow> JNull | Some v \<Rightarrow> v)"
| "py_get v k = Inl (AttributeError ''object has no attribute get'')"

text \<open>\<open>d.get(k, default)\<close>.\<close>

fun py_get_default :: "json \<Rightarrow> string \<Rightarrow> json \<Rightarrow> exn + json" where
  "py_get_default (JObj kvs) k d = Inr (case map_of kvs k of None \<Rightarrow> d | Some v \<Rightarrow> v)"
| "py_get_default v k d = Inl (AttributeError ''object has no attribute get'')"

text \<open>\<open>d[k]\<close> with a string key: \<open>KeyError\<close> on a dict without the key, \<open>TypeError\<close> on
  every other value.\<close>

fun py_item :: "json \<Rightarrow> string \<Rightarrow> exn + json" where
  "py_item (JObj kvs) k = (case map_of kvs k of None \<Rightarrow> Inl (KeyError k) | Some v \<Rightarrow> Inr v)"
| "py_item (JStr s) k = Inl (TypeError ''string indices must be integers'')"
| "py_item (JArr xs) k = Inl (TypeError ''list indices must be integers or slices, not str'')"
| "py_item v k = Inl (TypeError ''object is not subscriptable'')"

text \<open>\<open>for x in v\<close>: a list yields its elements, a dict its keys, a string its characters;
  nothing else can be iterated.\<close>

fun py_iter :: "json \<Rightarrow> exn + json list" where
  "py_iter (JArr xs) = Inr xs"
| "py_iter (JObj kvs) = Inr (map (\<lambda>kv. JStr (fst kv)) kvs)"
| "py_iter (JStr s) = Inr (map (\<lambda>c. JStr [c]) s)"
| "py_iter v = Inl (TypeError ''object is not iterable'')"

text \<open>The conversion of an \<open>int\<close> to a \<open>float\<close>: the nearest double, and an
  \<open>OverflowError\<close> for an \<open>int\<close> beyond the range of the doubles.\<close>

definition int_to_float :: "int \<Rightarrow> exn + pyfloat" where
  "int_to_float i =
     (case round_double (of_int i) of
        Finite r \<Rightarrow> Inr (Finite r)
      | _ \<Rightarrow> Inl (OverflowError ''int too large to convert to float''))"

text \<open>The other operand of an arithmetic operation whose first operand is a \<open>float\<close>: a
  \<open>float\<close> as it is, an \<open>int\<close> converted, \<open>True\<close> as 1 and \<open>False\<close> as 0; no other value is
  a number.\<close>

fun num_of :: "json \<Rightarrow> (exn + pyfloat) option" where
  "num_of (JFloat y) = Some (Inr y)"
| "num_of (JInt i) = Some (int_to_float i)"
| "num_of (JBool b) = Some (Inr (Finite (if b then 1 else 0)))"
| "num_of v = None"

text \<open>\<open>x += v\<close> and \<open>x - v\<close> for a float \<open>x\<close> and a value \<open>v\<close> of the reply.\<close>

definition float_add :: "pyfloat \<Rightarrow> json \<Rightarrow> exn + pyfloat" where
  "float_add x v =
     (case num_of v of
        None \<Rightarrow> Inl (TypeError ''unsupported operand type(s) for +='')
      | Some c \<Rightarrow> ebind c (\<lambda>y. Inr (float_plus x y)))"

definition float_sub :: "pyfloat \<Rightarrow> json \<Rightarrow> exn + pyfloat" where
  "float_sub x v =
     (case num_of v of
        None \<Rightarrow> Inl (TypeError ''unsupported operand type(s) for -'')
      | Some c \<Rightarrow> ebind c (\<lambda>y. Inr (float_minus x y)))"

text \<open>\<open>x / n\<close> for a float \<open>x\<close> and the length \<open>n\<close> of a list: a zero divisor raises;
  otherwise the length is converted to a float (a length is below \<open>2\<^sup>6\<^sup>3\<close>, so the
  conversion does not overflow) and the floats are divided.\<close>

definition float_div_len :: "pyfloat \<Rightarrow> nat \<Rightarrow> exn + pyfloat" where
  "float_div_len x n =
     (if n = 0 then Inl (ZeroDivisionError ''float division by zero'')
      else Inr (float_divide x (round_double (real n))))"

text \<open>\<open>xs[i]\<close> for a non-negative index.\<close>

definition list_item :: "'a list \<Rightarrow> nat \<Rightarrow> exn + 'a" where
  "list_item xs i = (if i < length xs then Inr (xs ! i) else Inl (IndexError ''list index out of range''))"

text \<open>A list comprehension \<open>[f(x) for x in xs]\<close> whose body may raise.\<close>

fun map_exn :: "('a \<Rightarrow> exn + 'b) \<Rightarrow> 'a list \<Rightarrow> exn + 'b list" where
  "map_exn f [] = Inr []"
| "map_exn f (x # xs) = ebind (f x) (\<lambda>y. ebind (map_exn f xs) (\<lambda>ys. Inr (y # ys)))"

subsection \<open>Strings\<close>

text \<open>\<open>sub in s\<close> on strings.\<close>

fun str_in :: "string \<Rightarrow> string \<Rightarrow> bool" where
  "str_in sub [] = (sub = [])"
| "str_in sub (c # cs) = (prefix sub (c # cs) \<or> str_in sub cs)"

text \<open>The text before and the text after the first occurrence of a separator.\<close>

fun first_split :: "string \<Rightarrow> string \<Rightarrow> (string \<times> string) option" where
  "first_split sep [] = (if sep = [] then Some ([], []) else None)"
| "first_split sep (c # cs) =
     (if prefix sep (c # cs) then Some ([], drop (length sep) (c # cs))
      else map_option (\<lambda>ab. (c # fst ab, snd ab)) (first_split sep cs))"

lemma first_split_decomp: "first_split sep s = Some (a, b) \<Longrightarrow> s = a @ sep @ b"
proof (induction s arbitrary: a)
  case Nil
  then show ?case by (simp split: if_splits)
next
  case (Cons c cs)
  show ?case
  proof (cases "prefix sep (c # cs)")
    case True
    then obtain r where r: "c # cs = sep @ r" by (auto simp: prefix_def)
    from True Cons.prems have "a = []" "b = drop (length sep) (c # cs)" by auto
    with r show ?thesis by (metis append_Nil append_eq_conv_conj)
  next
    case False
    with Cons.prems obtain a' where "first_split sep cs = Some (a', b)" "a = c # a'"
      by auto
    with Cons.IH show ?thesis by auto
  qed
qed

text \<open>\<open>s.split(sep)\<close> for a non-empty separator: cut at each occurrence, left to right.
  (Python raises on an empty separator; the program only passes the two fence literals.)\<close>

function split_str :: "string \<Rightarrow> string \<Rightarrow> string list" where
  "split_str sep s =
     (if sep = [] then [s]
      else case first_split sep s of
             None \<Rightarrow> [s]
           | Some ab \<Rightarrow> fst ab # split_str sep (snd ab))"
  by pat_completeness auto
termination
proof (relation "measure (\<lambda>p. length (snd p))")
  show "wf (measure (\<lambda>p. length (snd p)))" by simp
next
  fix sep s :: string and ab
  assume "sep \<noteq> []" "first_split sep s = Some ab"
  then have "s = fst ab @ sep @ snd ab"
    using first_split_decomp [of sep s "fst ab" "snd ab"] by simp
  then have "length s = length (fst ab) + length sep + length (snd ab)"
    by (metis length_append add.assoc)
  with \<open>sep \<noteq> []\<close> show "((sep, snd ab), (sep, s)) \<in> measure (\<lambda>p. length (snd p))"
    by (cases sep) auto
qed

declare split_str.simps [simp del]

section \<open>The itinerary builder\<close>

subsection \<open>Extraction of the JSON payload from the reply\<close>

text \<open>
  \<open>_parse_llm_response\<close>: the payload is the text after the first \<open>```json\<close> up to the
  next fence; without a tagged fence, the text between the first and the second fence;
  without any fence, the whole reply.  \<open>extract_json_str\<close> is the value of \<open>json_str\<close>
  when \<open>json.loads\<close> is called.
\<close>

definition extract_json_str :: "string \<Rightarrow> exn + string" where
  \<open>extract_json_str response =
     (if str_in ''```json'' response then
        ebind (list_item (split_str ''```json'' response) 1)
          (\<lambda>tail. list_item (split_str ''```'' tail) 0)
      else if str_in ''```'' response then list_item (split_str ''```'' response) 1
      else Inr response)\<close>

definition parse_llm_response :: "'a pylib_scheme \<Rightarrow> string \<Rightarrow> exn + json" where
  "parse_llm_response L response =
     ebind (extract_json_str response) (\<lambda>json_str.
       case json_loads L json_str of
         Inl m \<Rightarrow> Inl (ValueError (''Failed to parse LLM response as JSON: '' @ m))
       | Inr v \<Rightarrow> Inr v)"

subsection \<open>The data model\<close>

text \<open>
  The dataclasses of the program.  The fields of \<open>Activity\<close>, the cost and the notes of a
  \<open>DayPlan\<close> and the summary of an \<open>Itinerary\<close> are stored as the reply gives them,
  whatever their type, so they are JSON values here; \<open>JNull\<close> is Python's \<open>None\<close>.
\<close>

record trip_preferences =
  destination :: string
  start_date :: datetime
  end_date :: datetime
  budget :: real
  travel_style :: string
  interests :: "string list"
  accommodation_preference :: string
  transportation_preference :: string
  dietary_restrictions :: "string list option"
  special_requirements :: "string option"

record hotel =
  name :: string
  address :: json
  price_per_night :: "real option"
  rating :: "real option"
  amenities :: "string list"
  room_type :: "string option"
  booking_url :: json
  latitude :: "real option"
  longitude :: "real option"
  images :: "string list"
  description :: string
  source :: json

record attraction =
  name :: string
  description :: string
  category :: string
  rating :: "real option"
  price_level :: "string option"
  opening_hours :: "string option"
  address :: "string option"
  website :: "string option"
  images :: "string list"
  source :: string
  popularity_score :: "real option"
  best_time_to_visit :: "string option"
  visit_duration :: "string option"

record activity =
  name :: json
  start_time :: json
  end_time :: json
  location :: json
  description :: json
  category :: json
  cost :: json
  booking_url :: json
  "notes" :: json

record day_plan =
  date :: datetime
  activities :: "activity list"
  total_cost :: json
  "notes" :: json

record itinerary =
  destination :: string
  start_date :: datetime
  end_date :: datetime
  daily_plans :: "day_plan list"
  total_cost :: pyfloat
  travel_style :: string
  interests :: "string list"
  hotel :: "hotel option"
  summary :: json

subsection \<open>The prompt\<close>

text \<open>\<open>sep.join(xs)\<close>.\<close>

fun join_str :: "string \<Rightarrow> string list \<Rightarrow> string" where
  "join_str sep [] = []"
| "join_str sep [x] = x"
| "join_str sep (x # y # ys) = x @ sep @ join_str sep (y # ys)"

text \<open>\<open>str(v)\<close> as an f-string renders a value.\<close>

definition py_str :: "'a pylib_scheme \<Rightarrow> json \<Rightarrow> string" where
  "py_str L v = (case v of JStr s \<Rightarrow> s | JNull \<Rightarrow> ''None'' | _ \<Rightarrow> str_of_json L v)"

text \<open>\<open>x or 'Not specified'\<close> for an optional string and an optional number: an empty
  string and a zero are falsy, like \<open>None\<close>.\<close>

definition str_or_unspecified :: "string option \<Rightarrow> string" where
  "str_or_unspecified x =
     (case x of None \<Rightarrow> ''Not specified'' | Some s \<Rightarrow> if s = [] then ''Not specified'' else s)"

definition float_or_unspecified :: "'a pylib_scheme \<Rightarrow> real option \<Rightarrow> string" where
  "float_or_unspecified L x =
     (case x of None \<Rightarrow> ''Not specified''
      | Some r \<Rightarrow> if r = 0 then ''Not specified'' else str_of_float L r)"

text \<open>\<open>_format_attractions_for_prompt\<close>: six lines for each attraction, numbered from 1.
  The decimal rendering of the index is the parameter \<open>str_of_nat\<close>.\<close>

fun attraction_lines ::
  "'a pylib_scheme \<Rightarrow> (nat \<Rightarrow> string) \<Rightarrow> nat \<Rightarrow> attraction list \<Rightarrow> string list" where
  "attraction_lines L str_of_nat i [] = []"
| "attraction_lines L str_of_nat i (a # as) =
     [str_of_nat i @ ''. '' @ attraction.name a,
      ''   Category: '' @ attraction.category a,
      ''   Duration: '' @ str_or_unspecified (attraction.visit_duration a),
      ''   Price Level: '' @ str_or_unspecified (attraction.price_level a),
      ''   Rating: '' @ float_or_unspecified L (attraction.rating a) @ ''/5.0'',
      []]
     @ attraction_lines L str_of_nat (Suc i) as"

definition format_attractions_for_prompt ::
  "'a pylib_scheme \<Rightarrow> (nat \<Rightarrow> string) \<Rightarrow> attraction list \<Rightarrow> string" where
  "format_attractions_for_prompt L str_of_nat attractions =
     join_str [CHR 10] (attraction_lines L str_of_nat 1 attractions)"

text \<open>The fixed tail of the prompt: the ten directives and the reply schema.\<close>

definition prompt_directives :: string where
  \<open>prompt_directives =
     ''Please create a day-by-day itinerary that:\<newline>'' @
     ''1. Optimizes time and location (group nearby attractions)\<newline>'' @
     ''2. Matches the travel style and budget\<newline>'' @
     ''3. Includes a mix of activities based on interests\<newline>'' @
     ''4. Includes reasonable travel times between locations\<newline>'' @
     ''5. Includes meal times and rest periods\<newline>'' @
     ''6. Provides estimated costs for each activity\<newline>'' @
     ''7. Considers opening hours and visit durations\<newline>'' @
     ''8. Includes transportation between locations\<newline>'' @
     ''9. Accounts for weather and seasonal factors\<newline>'' @
     ''10. Includes backup activities in case of bad weather\<newline>'' @
     ''\<newline>'' @
     ''Format the response as a JSON object with the following structure:\<newline>'' @
     ''{\<newline>'' @
     ''    "daily_plans": [\<newline>'' @
     ''        {\<newline>'' @
     ''            "date": "YYYY-MM-DD",\<newline>'' @
     ''            "activities": [\<newline>'' @
     ''                {\<newline>'' @
     ''                    "name": "Activity name",\<newline>'' @
     ''                    "start_time": "HH:MM",\<newline>'' @
     ''                    "end_time": "HH:MM",\<newline>'' @
     ''                    "location": "Location name",\<newline>'' @
     ''                    "description": "Brief description",\<newline>'' @
     ''                    "category": "Activity category",\<newline>'' @
     ''                    "cost": 0.0,\<newline>'' @
     ''                    "booking_url": "Optional URL",\<newline>'' @
     ''                    "notes": "Optional notes"\<newline>'' @
     ''                }\<newline>'' @
     ''            ],\<newline>'' @
     ''            "total_cost": 0.0,\<newline>'' @
     ''            "notes": "Optional day notes"\<newline>'' @
     ''        }\<newline>'' @
     ''    ],\<newline>'' @
     ''    "total_cost": 0.0,\<newline>'' @
     ''    "summary": "Brief trip summary"\<newline>'' @
     ''}\<newline>'' @
     ''\<newline>'' @
     ''Ensure all dates are in YYYY-MM-DD format and times are in HH:MM 24-hour format.\<newline>'' @
     ''Make sure the total cost matches the sum of all activity costs.\<newline>'' @
     ''Include realistic travel times between locations.\<newline>'' @
     ''Consider local customs and peak hours for attractions.\<newline>''\<close>

text \<open>\<open>_create_llm_prompt\<close>.\<close>

definition create_llm_prompt ::
  "'a pylib_scheme \<Rightarrow> (nat \<Rightarrow> string) \<Rightarrow> trip_preferences \<Rightarrow> hotel option \<Rightarrow>
     attraction list \<Rightarrow> string" where
  \<open>create_llm_prompt L str_of_nat trip_prefs chosen_hotel attractions =
     ''Create a detailed travel itinerary for a trip to '' @
       trip_preferences.destination trip_prefs @ '' \<newline>'' @
     ''from '' @ date_str L (trip_preferences.start_date trip_prefs) @
       '' to '' @ date_str L (trip_preferences.end_date trip_prefs) @ ''.\<newline>'' @
     ''\<newline>'' @
     ''Travel Style: '' @ trip_preferences.travel_style trip_prefs @ ''\<newline>'' @
     ''Budget: $'' @ str_of_float L (trip_preferences.budget trip_prefs) @ ''\<newline>'' @
     ''Interests: '' @ join_str '', '' (trip_preferences.interests trip_prefs) @ ''\<newline>'' @
     ''\<newline>'' @
     ''Hotel: '' @
       (case chosen_hotel of None \<Rightarrow> ''Not selected yet'' | Some h \<Rightarrow> hotel.name h) @ ''\<newline>'' @
     ''Hotel Location: '' @
       (case chosen_hotel of None \<Rightarrow> ''Not available'' | Some h \<Rightarrow> py_str L (hotel.address h)) @
       ''\<newline>'' @
     ''\<newline>'' @
     ''Available Attractions:\<newline>'' @
     format_attractions_for_prompt L str_of_nat attractions @ ''\<newline>'' @
     ''\<newline>'' @
     prompt_directives\<close>

subsection \<open>Building the itinerary from the reply\<close>

text \<open>The construction of one \<open>Activity\<close>: six keys are read with \<open>act[...]\<close>, three
  with \<open>act.get(...)\<close>, in the order of the keyword arguments.\<close>

definition make_activity :: "json \<Rightarrow> exn + activity" where
  "make_activity act =
     ebind (py_item act ''name'') (\<lambda>v_name.
     ebind (py_item act ''start_time'') (\<lambda>v_start.
     ebind (py_item act ''end_time'') (\<lambda>v_end.
     ebind (py_item act ''location'') (\<lambda>v_location.
     ebind (py_item act ''description'') (\<lambda>v_description.
     ebind (py_item act ''category'') (\<lambda>v_category.
     ebind (py_get act ''cost'') (\<lambda>v_cost.
     ebind (py_get act ''booking_url'') (\<lambda>v_url.
     ebind (py_get act ''notes'') (\<lambda>v_notes.
       Inr \<lparr>activity.name = v_name, activity.start_time = v_start,
            activity.end_time = v_end, activity.location = v_location,
            activity.description = v_description, activity.category = v_category,
            activity.cost = v_cost, activity.booking_url = v_url,
            activity.notes = v_notes\<rparr>)))))))))"

text \<open>\<open>datetime.strptime(v, "%Y-%m-%d")\<close> on a value of the reply.\<close>

definition parse_day_date :: "'a pylib_scheme \<Rightarrow> json \<Rightarrow> exn + datetime" where
  "parse_day_date L v =
     (case v of
        JStr s \<Rightarrow> (case strptime_ymd L s of Inl m \<Rightarrow> Inl (ValueError m) | Inr d \<Rightarrow> Inr d)
      | _ \<Rightarrow> Inl (TypeError ''strptime() argument 1 must be str''))"

text \<open>One round of the loop over the day entries: the activities, then the day's cost
  added to the running total, then the \<open>DayPlan\<close> with its date.\<close>

definition build_day ::
  "'a pylib_scheme \<Rightarrow> json \<Rightarrow> pyfloat \<Rightarrow> exn + (day_plan \<times> pyfloat)" where
  "build_day L day_data running_total =
     ebind (py_item day_data ''activities'') (\<lambda>v_acts.
     ebind (py_iter v_acts) (\<lambda>acts.
     ebind (map_exn make_activity acts) (\<lambda>activities.
     ebind (py_item day_data ''total_cost'') (\<lambda>day_cost.
     ebind (float_add running_total day_cost) (\<lambda>total'.
     ebind (py_item day_data ''date'') (\<lambda>v_date.
     ebind (parse_day_date L v_date) (\<lambda>d.
     ebind (py_get day_data ''notes'') (\<lambda>v_notes.
       Inr (\<lparr>day_plan.date = d, day_plan.activities = activities,
             day_plan.total_cost = day_cost, day_plan.notes = v_notes\<rparr>, total')))))))))"

text \<open>The loop: \<open>daily_plans\<close> and \<open>total_cost\<close> are the loop's two variables.\<close>

fun build_days ::
  "'a pylib_scheme \<Rightarrow> json list \<Rightarrow> day_plan list \<Rightarrow> pyfloat \<Rightarrow>
     exn + (day_plan list \<times> pyfloat)" where
  "build_days L [] plans running_total = Inr (plans, running_total)"
| "build_days L (day_data # rest) plans running_total =
     ebind (build_day L day_data running_total) (\<lambda>r.
       build_days L rest (plans @ [fst r]) (snd r))"

text \<open>The body of the \<open>try\<close> block of \<open>build_itinerary\<close> from the reply text on.  The
  running total starts as the float \<open>0.0\<close>; the check
  \<open>abs(total_cost - itinerary_data["total_cost"]) > 0.01\<close> is a comparison of two floats, the
  second one the double that the literal \<open>0.01\<close> denotes.\<close>

definition reconcile_response ::
  "'a pylib_scheme \<Rightarrow> trip_preferences \<Rightarrow> hotel option \<Rightarrow> string \<Rightarrow> exn + itinerary" where
  "reconcile_response L trip_prefs chosen_hotel response_text =
     (if response_text = [] then Inl (ValueError ''Empty response from LLM'')
      else
        ebind (parse_llm_response L response_text) (\<lambda>itinerary_data.
        ebind (py_get itinerary_data ''daily_plans'') (\<lambda>v_plans.
          if \<not> truthy v_plans then Inl (ValueError ''No daily plans in itinerary'')
          else
            ebind (py_item itinerary_data ''daily_plans'') (\<lambda>v_days.
            ebind (py_iter v_days) (\<lambda>days.
            ebind (build_days L days [] (Finite 0)) (\<lambda>r.
            ebind (py_item itinerary_data ''total_cost'') (\<lambda>v_total.
            ebind (float_sub (snd r) v_total) (\<lambda>diff.
              if float_gt (float_abs diff) (round_double (1 / 100))
              then Inl (ValueError ''Total cost mismatch in itinerary'')
              else
                ebind (py_item itinerary_data ''summary'') (\<lambda>v_summary.
                  Inr \<lparr>itinerary.destination = trip_preferences.destination trip_prefs,
                       itinerary.start_date = trip_preferences.start_date trip_prefs,
                       itinerary.end_date = trip_preferences.end_date trip_prefs,
                       itinerary.daily_plans = fst r,
                       itinerary.total_cost = snd r,
                       itinerary.travel_style = trip_preferences.travel_style trip_prefs,
                       itinerary.interests = trip_preferences.interests trip_prefs,
                       itinerary.hotel = chosen_hotel,
                       itinerary.summary = v_summary\<rparr>)))))))))"

text \<open>The \<open>try\<close> block: the prompt, the call of the language model (which may raise or
  return the reply text), then the reconciliation.\<close>

definition build_itinerary_try ::
  "'a pylib_scheme \<Rightarrow> (nat \<Rightarrow> string) \<Rightarrow> (string \<Rightarrow> exn + string) \<Rightarrow> trip_preferences \<Rightarrow>
     hotel option \<Rightarrow> attraction list \<Rightarrow> exn + itinerary" where
  "build_itinerary_try L str_of_nat llm trip_prefs chosen_hotel attractions =
     ebind (llm (create_llm_prompt L str_of_nat trip_prefs chosen_hotel attractions))
       (reconcile_response L trip_prefs chosen_hotel)"

text \<open>\<open>build_itinerary\<close>: every exception of the \<open>try\<close> block becomes one \<open>ValueError\<close>
  whose message carries that of the cause.\<close>

definition build_itinerary ::
  "'a pylib_scheme \<Rightarrow> (nat \<Rightarrow> string) \<Rightarrow> (string \<Rightarrow> exn + string) \<Rightarrow> trip_preferences \<Rightarrow>
     hotel option \<Rightarrow> attraction list \<Rightarrow> exn + itinerary" where
  "build_itinerary L str_of_nat llm trip_prefs chosen_hotel attractions =
     (case build_itinerary_try L str_of_nat llm trip_prefs chosen_hotel attractions of
        Inl e \<Rightarrow> Inl (ValueError (''Failed to build itinerary: '' @ exn_str e))
      | Inr it \<Rightarrow> Inr it)"

subsection \<open>The budget analysis of the formatter\<close>

text \<open>The entry \<open>average_daily_cost\<close> of \<open>format_budget_analysis\<close>:
  \<open>itinerary.total_cost / len(itinerary.daily_plans)\<close>.\<close>

definition average_daily_cost :: "itinerary \<Rightarrow> exn + pyfloat" where
  "average_daily_cost it =
     float_div_len (itinerary.total_cost it) (length (itinerary.daily_plans it))"

section \<open>Parsing the trip preferences\<close>

text \<open>
  The agent state is a dict from field names to values; a value is what the form sent
  (a JSON value) or a parsed date.
\<close>

datatype pyval = PJson json | PDate datetime

type_synonym agent_state = "string \<rightharpoonup> pyval"

definition required_fields :: "string list" where
  "required_fields =
     [''destination'', ''start_date'', ''end_date'', ''budget'',
      ''travel_style'', ''interests'', ''accommodation_preference'',
      ''transportation_preference'']"

text \<open>\<open>k in v\<close>: a key of a dict, an element of a list, a substring of a string.\<close>

fun py_contains :: "json \<Rightarrow> string \<Rightarrow> exn + bool" where
  "py_contains (JObj kvs) k = Inr (map_of kvs k \<noteq> None)"
| "py_contains (JArr xs) k = Inr (JStr k \<in> set xs)"
| "py_contains (JStr s) k = Inr (str_in k s)"
| "py_contains v k = Inl (TypeError ''argument is not iterable'')"

text \<open>The loop over the required fields: the first one missing raises.\<close>

fun check_required :: "json \<Rightarrow> string list \<Rightarrow> exn + unit" where
  "check_required user_input [] = Inr ()"
| "check_required user_input (field # others) =
     ebind (py_contains user_input field) (\<lambda>present.
       if \<not> present then Inl (ValueError (''Missing required field: '' @ field))
       else check_required user_input others)"

text \<open>\<open>parse_date\<close>: the \<open>ValueError\<close> of \<open>strptime\<close> is replaced; its \<open>TypeError\<close> on a
  value that is not a string is not caught here.\<close>

definition parse_date :: "'a pylib_scheme \<Rightarrow> json \<Rightarrow> exn + datetime" where
  "parse_date L v =
     (case v of
        JStr s \<Rightarrow>
          (case strptime_ymd L s of
             Inl m \<Rightarrow> Inl (ValueError ''Date must be in YYYY-MM-DD format'')
           | Inr d \<Rightarrow> Inr d)
      | _ \<Rightarrow> Inl (TypeError ''strptime() argument 1 must be str''))"

text \<open>\<open>validate_budget\<close>: \<open>budget > 0\<close> on a float.\<close>

definition validate_budget :: "pyfloat \<Rightarrow> bool" where
  "validate_budget b \<longleftrightarrow> float_gt b (Finite 0)"

text \<open>\<open>float(v)\<close>.\<close>

definition py_float :: "'a pylib_scheme \<Rightarrow> json \<Rightarrow> exn + pyfloat" where
  "py_float L v =
     (case v of
        JFloat x \<Rightarrow> Inr x
      | JInt i \<Rightarrow> int_to_float i
      | JBool b \<Rightarrow> Inr (Finite (if b then 1 else 0))
      | JStr s \<Rightarrow>
          (case float_of_str L s of
             None \<Rightarrow> Inl (ValueError ''could not convert string to float'')
           | Some x \<Rightarrow> Inr (Finite x))
      | _ \<Rightarrow> Inl (TypeError ''float() argument must be a string or a real number''))"

text \<open>The inner \<open>try\<close> around the budget: a \<open>ValueError\<close> or \<open>TypeError\<close> raised in it, the
  one for a budget that is not positive included, is replaced by one message; any other
  exception passes through.\<close>

definition parse_budget :: "'a pylib_scheme \<Rightarrow> json \<Rightarrow> exn + pyfloat" where
  "parse_budget L user_input =
     (case ebind (py_item user_input ''budget'') (\<lambda>v.
           ebind (py_float L v) (\<lambda>b.
             if \<not> validate_budget b then Inl (ValueError ''Budget must be a positive number'')
             else Inr b)) of
        Inl (ValueError m) \<Rightarrow> Inl (ValueError ''Invalid budget value'')
      | Inl (TypeError m) \<Rightarrow> Inl (ValueError ''Invalid budget value'')
      | Inl e \<Rightarrow> Inl e
      | Inr b \<Rightarrow> Inr b)"

text \<open>\<open>state.get("user_input", {})\<close>; a date has neither keys nor elements.\<close>

definition get_user_input :: "agent_state \<Rightarrow> exn + json" where
  "get_user_input state =
     (case state ''user_input'' of
        None \<Rightarrow> Inr (JObj [])
      | Some (PJson v) \<Rightarrow> Inr v
      | Some (PDate d) \<Rightarrow> Inl (TypeError ''argument is not iterable''))"

text \<open>The \<open>try\<close> block of \<open>parse_trip_preferences\<close>.  The \<open>TripPreferences\<close> object is built
  from the values of the form and turned into a dict at once (\<open>asdict\<close>), so the model
  writes the twelve fields into the state directly; the two fields that this function
  does not set have their default \<open>None\<close>.\<close>

definition parse_trip_preferences_try :: "'a pylib_scheme \<Rightarrow> agent_state \<Rightarrow> exn + agent_state" where
  "parse_trip_preferences_try L state =
     ebind (get_user_input state) (\<lambda>user_input.
     ebind (check_required user_input required_fields) (\<lambda>u.
     ebind (py_item user_input ''start_date'') (\<lambda>v_start.
     ebind (parse_date L v_start) (\<lambda>d_start.
     ebind (py_item user_input ''end_date'') (\<lambda>v_end.
     ebind (parse_date L v_end) (\<lambda>d_end.
       if \<not> datetime_less d_start d_end
       then Inl (ValueError ''End date must be after start date'')
       else
         ebind (parse_budget L user_input) (\<lambda>b.
         ebind (py_item user_input ''destination'') (\<lambda>v_destination.
         ebind (py_item user_input ''travel_style'') (\<lambda>v_style.
         ebind (py_item user_input ''interests'') (\<lambda>v_interests.
         ebind (py_item user_input ''accommodation_preference'') (\<lambda>v_accommodation.
         ebind (py_item user_input ''transportation_preference'') (\<lambda>v_transportation.
         ebind (py_get user_input ''dietary_restrictions'') (\<lambda>v_dietary.
         ebind (py_get user_input ''special_requirements'') (\<lambda>v_special.
           Inr ((state ++ map_of
                  [(''destination'', PJson v_destination),
                   (''start_date'', PDate d_start),
                   (''end_date'', PDate d_end),
                   (''budget'', PJson (JFloat b)),
                   (''travel_style'', PJson v_style),
                   (''interests'', PJson v_interests),
                   (''accommodation_preference'', PJson v_accommodation),
                   (''transportation_preference'', PJson v_transportation),
                   (''dietary_restrictions'', PJson v_dietary),
                   (''special_requirements'', PJson v_special),
                   (''destination_insights'', PJson JNull),
                   (''personalized_recommendations'', PJson JNull)])
                 (''user_input'' := None))))))))))))))))"

text \<open>\<open>parse_trip_preferences\<close>: an exception is not raised to the caller; its message is
  stored under \<open>error\<close> in the state, which is otherwise as it was.\<close>

definition parse_trip_preferences :: "'a pylib_scheme \<Rightarrow> agent_state \<Rightarrow> agent_state" where
  "parse_trip_preferences L state =
     (case parse_trip_preferences_try L state of
        Inl e \<Rightarrow> state(''error'' \<mapsto> PJson (JStr (exn_str e)))
      | Inr state' \<Rightarrow> state')"

section \<open>The hotel search\<close>

text \<open>
  The answer of the search service: \<open>status_code\<close> is its HTTP status, \<open>status_text\<close> is
  the message that \<open>raise_for_status\<close> gives to its \<open>HTTPError\<close> (it names the status, the
  reason and the URL), and \<open>json_body\<close> is the result of \<open>response.json()\<close> (\<open>Inl\<close>: the
  body is not JSON).  The request itself is a parameter \<open>post\<close> of the search: from the
  query and the number of results to the answer, or \<open>Inl\<close> for a failure of the transport.
\<close>

datatype http_response =
  HttpResponse (status_code: nat) (status_text: string) (json_body: "string + json")

text \<open>\<open>response.raise_for_status()\<close>: an \<open>HTTPError\<close>, which is a \<open>RequestException\<close>, for
  a client error (400 to 499) and for a server error (500 to 599); every other status
  passes.\<close>

definition raise_for_status :: "http_response \<Rightarrow> exn + unit" where
  "raise_for_status response =
     (if 400 \<le> status_code response \<and> status_code response < 600
      then Inl (RequestException (status_text response))
      else Inr ())"

definition get_price_range :: "'a pylib_scheme \<Rightarrow> string \<Rightarrow> real \<Rightarrow> real \<times> real" where
  "get_price_range L style b =
     (if str_lower L style = ''luxury'' then (b * 0.4, b * 0.6)
      else if str_lower L style = ''moderate'' then (b * 0.2, b * 0.4)
      else (0, b * 0.2))"

definition price_pattern :: string where
  \<open>price_pattern =
     [CHR 0x5C] @ ''$('' @ [CHR 0x5C] @ ''d+(?:'' @ [CHR 0x5C] @ ''.'' @ [CHR 0x5C] @ ''d{2})?)''\<close>

definition rating_pattern :: string where
  \<open>rating_pattern =
     ''('' @ [CHR 0x5C] @ ''d+(?:'' @ [CHR 0x5C] @ ''.'' @ [CHR 0x5C] @ ''d)?)'' @
     [CHR 0x5C] @ ''s*'' @ [CHR 0x5C] @ ''/'' @ [CHR 0x5C] @ ''s*5''\<close>

definition extract_price :: "'a pylib_scheme \<Rightarrow> string \<Rightarrow> real option" where
  "extract_price L text =
     (case re_search L price_pattern text of None \<Rightarrow> None | Some g \<Rightarrow> float_of_str L g)"

definition extract_rating :: "'a pylib_scheme \<Rightarrow> string \<Rightarrow> real option" where
  "extract_rating L text =
     (case re_search L rating_pattern text of None \<Rightarrow> None | Some g \<Rightarrow> float_of_str L g)"

definition amenity_keywords :: "(string \<times> string list) list" where
  "amenity_keywords =
     [(''wifi'', [''wifi'', ''wireless internet'', ''free wifi'']),
      (''pool'', [''pool'', ''swimming pool'', ''indoor pool'', ''outdoor pool'']),
      (''gym'', [''gym'', ''fitness center'', ''workout room'']),
      (''restaurant'', [''restaurant'', ''dining'', ''breakfast'', ''room service'']),
      (''spa'', [''spa'', ''massage'', ''wellness center'']),
      (''parking'', [''parking'', ''free parking'', ''valet parking'']),
      (''bar'', [''bar'', ''lounge'', ''pub'']),
      (''conference'', [''conference room'', ''meeting room'', ''business center'']),
      (''laundry'', [''laundry'', ''dry cleaning'', ''washing machine'']),
      (''air_conditioning'', [''air conditioning'', ''ac'', ''climate control'']),
      (''elevator'', [''elevator'', ''lift'']),
      (''accessibility'', [''wheelchair accessible'', ''disabled access'']),
      (''pet_friendly'', [''pet friendly'', ''pets allowed'']),
      (''shuttle'', [''shuttle'', ''airport shuttle'', ''free shuttle'']),
      (''kitchen'', [''kitchen'', ''kitchenette'', ''cooking facilities''])]"

definition find_amenities :: "'a pylib_scheme \<Rightarrow> string \<Rightarrow> string list" where
  "find_amenities L text =
     map fst (filter (\<lambda>entry. list_ex (\<lambda>keyword. str_in keyword (str_lower L text)) (snd entry))
                amenity_keywords)"

text \<open>\<open>v.split(sep)[0]\<close> and the use of a value as the text of a regular-expression search:
  both need a string.\<close>

definition split_first :: "json \<Rightarrow> string \<Rightarrow> exn + string" where
  "split_first v sep =
     (case v of
        JStr s \<Rightarrow> list_item (split_str sep s) 0
      | _ \<Rightarrow> Inl (AttributeError ''object has no attribute split''))"

definition as_text :: "json \<Rightarrow> exn + string" where
  "as_text v =
     (case v of JStr s \<Rightarrow> Inr s | _ \<Rightarrow> Inl (TypeError ''expected string or bytes-like object''))"

text \<open>\<open>_parse_hotel_from_search_result\<close>.\<close>

definition parse_hotel_from_search_result :: "'a pylib_scheme \<Rightarrow> json \<Rightarrow> exn + hotel" where
  "parse_hotel_from_search_result L result =
     ebind (py_get_default result ''title'' (JStr [])) (\<lambda>v_title.
     ebind (split_first v_title '' - '') (\<lambda>title.
     ebind (py_get_default result ''content'' (JStr [])) (\<lambda>v_content.
     ebind (as_text v_content) (\<lambda>content.
     ebind (py_get result ''address'') (\<lambda>v_address.
     ebind (py_get result ''url'') (\<lambda>v_url.
     ebind (py_get_default result ''source'' (JStr ''Unknown'')) (\<lambda>v_source.
       Inr \<lparr>hotel.name = title,
            hotel.address = (if truthy v_address then v_address else JNull),
            hotel.price_per_night = extract_price L content,
            hotel.rating = extract_rating L content,
            hotel.amenities = find_amenities L content,
            hotel.room_type = None,
            hotel.booking_url = v_url,
            hotel.latitude = None,
            hotel.longitude = None,
            hotel.images = [],
            hotel.description = content,
            hotel.source = v_source\<rparr>)))))))"

text \<open>The sort key \<open>x.rating or 0\<close>.\<close>

definition rating_key :: "hotel \<Rightarrow> real" where
  "rating_key h = (case hotel.rating h of None \<Rightarrow> 0 | Some r \<Rightarrow> r)"

text \<open>\<open>hotels.sort(key=..., reverse=True)\<close>: a stable sort by descending key.\<close>

definition sort_by_rating :: "hotel list \<Rightarrow> hotel list" where
  "sort_by_rating hotels = sort_key (\<lambda>h. - rating_key h) hotels"

definition hotel_query :: "'a pylib_scheme \<Rightarrow> trip_preferences \<Rightarrow> string" where
  "hotel_query L trip_prefs =
     (let range = get_price_range L (trip_preferences.travel_style trip_prefs)
                    (trip_preferences.budget trip_prefs)
      in ''hotels in '' @ trip_preferences.destination trip_prefs @ '' '' @
         ''from '' @ strftime_ymd L (trip_preferences.start_date trip_prefs) @ '' '' @
         ''to '' @ strftime_ymd L (trip_preferences.end_date trip_prefs) @ '' '' @
         trip_preferences.travel_style trip_prefs @ '' style '' @
         ''price range $'' @ fmt_0f L (fst range) @ ''-$'' @ fmt_0f L (snd range))"

text \<open>The \<open>try\<close> block of \<open>search_hotels\<close>.\<close>

definition search_hotels_try ::
  "'a pylib_scheme \<Rightarrow> (string \<Rightarrow> nat \<Rightarrow> string + http_response) \<Rightarrow> trip_preferences \<Rightarrow> nat \<Rightarrow>
     exn + hotel list" where
  "search_hotels_try L post trip_prefs num_results =
     (if trip_preferences.destination trip_prefs = [] then Inl (ValueError ''Destination is required'')
      else
        case post (hotel_query L trip_prefs) num_results of
          Inl m \<Rightarrow> Inl (RequestException m)
        | Inr response \<Rightarrow>
            ebind (raise_for_status response) (\<lambda>u.
              case json_body response of
                Inl m \<Rightarrow> Inl (RequestException m)
              | Inr data \<Rightarrow>
                  ebind (py_get_default data ''results'' (JArr [])) (\<lambda>results.
                    if \<not> truthy results
                    then Inl (HotelSearchError ''No hotels found matching your criteria'')
                    else
                      ebind (py_iter results) (\<lambda>rs.
                      ebind (map_exn (parse_hotel_from_search_result L) rs) (\<lambda>hotels.
                        Inr (sort_by_rating hotels))))))"

text \<open>\<open>search_hotels\<close>: the three handlers turn every exception into a
  \<open>HotelSearchError\<close>.\<close>

definition search_hotels ::
  "'a pylib_scheme \<Rightarrow> (string \<Rightarrow> nat \<Rightarrow> string + http_response) \<Rightarrow> trip_preferences \<Rightarrow> nat \<Rightarrow>
     exn + hotel list" where
  "search_hotels L post trip_prefs num_results =
     (case search_hotels_try L post trip_prefs num_results of
        Inr hotels \<Rightarrow> Inr hotels
      | Inl e \<Rightarrow>
          Inl (HotelSearchError
            (case e of
               RequestException m \<Rightarrow> ''API request failed: '' @ m
             | KeyError k \<Rightarrow> ''Failed to parse hotel data: '' @ exn_str e
             | ValueError m \<Rightarrow> ''Failed to parse hotel data: '' @ exn_str e
             | TypeError m \<Rightarrow> ''Failed to parse hotel data: '' @ exn_str e
             | _ \<Rightarrow> ''Unexpected error: '' @ exn_str e)))"

section \<open>A library given by tables\<close>

text \<open>
  To run the model on concrete data the library functions are given by finite tables:
  \<open>docs\<close> lists the texts that \<open>json.loads\<close> accepts with their values, \<open>dates\<close> the
  texts that \<open>strptime\<close> accepts with their dates, \<open>matches\<close> the pattern and text pairs
  on which \<open>re.search\<close> matches with the group found, and \<open>floats\<close> the numerals that
  \<open>float\<close> reads.  A text outside a table is rejected, so a table must list every
  accepted text among those that the run meets; \<open>str_lower\<close> is the identity, for texts
  that are in lower case already.
\<close>

definition table_lib ::
  "(string \<times> json) list \<Rightarrow> (string \<times> datetime) list \<Rightarrow> ((string \<times> string) \<times> string) list \<Rightarrow>
     (string \<times> real) list \<Rightarrow> pylib" where
  "table_lib docs dates matches floats =
     \<lparr>json_loads = (\<lambda>s. case map_of docs s of None \<Rightarrow> Inl ''Expecting value'' | Some v \<Rightarrow> Inr v),
      strptime_ymd = (\<lambda>s. case map_of dates s of
                             None \<Rightarrow> Inl ''time data does not match format''
                           | Some d \<Rightarrow> Inr d),
      float_of_str = map_of floats,
      str_of_float = (\<lambda>x. case map_of (map (\<lambda>p. (snd p, fst p)) floats) x of
                             None \<Rightarrow> ''0.0'' | Some s \<Rightarrow> s),
      fmt_0f = (\<lambda>x. case map_of (map (\<lambda>p. (snd p, fst p)) floats) x of
                       None \<Rightarrow> ''0'' | Some s \<Rightarrow> s),
      str_of_json = (\<lambda>v. case map_of (map (\<lambda>p. (snd p, fst p)) docs) v of
                            None \<Rightarrow> [] | Some s \<Rightarrow> s),
      date_str = (\<lambda>d. case map_of (map (\<lambda>p. (snd p, fst p)) dates) d of
                         None \<Rightarrow> [] | Some s \<Rightarrow> s),
      strftime_ymd = (\<lambda>d. case map_of (map (\<lambda>p. (snd p, fst p)) dates) d of
                             None \<Rightarrow> [] | Some s \<Rightarrow> s),
      str_lower = (\<lambda>s. s),
      re_search = (\<lambda>pattern text. map_of matches (pattern, text))\<rparr>"

text \<open>A reply wrapped in a fenced block tagged \<open>json\<close>.\<close>

definition fence_json :: "string \<Rightarrow> string" where
  \<open>fence_json s = ''```json'' @ [CHR 10] @ s @ [CHR 10] @ ''```''\<close>

section \<open>Notions used in the statements\<close>

text \<open>
  The value and the float that a day entry of the reply reports as its cost, and the sum of
  a list of floats as the loop of the builder forms it: from \<open>0.0\<close>, adding from left to
  right, each addition rounded.
\<close>

definition day_cost_value :: "json \<Rightarrow> json" where
  "day_cost_value day_data = (case py_item day_data ''total_cost'' of Inl e \<Rightarrow> JNull | Inr v \<Rightarrow> v)"

definition day_float :: "json \<Rightarrow> pyfloat" where
  "day_float day_data =
     (case num_of (day_cost_value day_data) of Some (Inr y) \<Rightarrow> y | _ \<Rightarrow> NaN)"

definition float_sum :: "pyfloat list \<Rightarrow> pyfloat" where
  "float_sum xs = foldl float_plus (Finite 0) xs"


















section \<open>Sample data\<close>

text \<open>Replies and library tables on which the model is run below.\<close>

definition backtick_reply :: string where
  \<open>backtick_reply = ''{"a": "```1```"}''\<close>

definition backtick_lib :: pylib where
  \<open>backtick_lib =
     table_lib [(''1'', JInt 1), (backtick_reply, JObj [(''a'', JStr ''```1```'')])] [] [] []\<close>

definition empty_object_lib :: pylib where
  \<open>empty_object_lib =
     table_lib [(''{}'', JObj []), (CHR 10 # ''{}'' @ [CHR 10], JObj [])] [] [] []\<close>

definition paris_prefs :: trip_preferences where
  "paris_prefs =
     \<lparr>trip_preferences.destination = ''Paris'',
      trip_preferences.start_date = DateTime 2024 6 1,
      trip_preferences.end_date = DateTime 2024 6 7,
      trip_preferences.budget = 2000,
      trip_preferences.travel_style = ''moderate'',
      trip_preferences.interests = [''culture'', ''food''],
      trip_preferences.accommodation_preference = ''hotel'',
      trip_preferences.transportation_preference = ''mixed'',
      trip_preferences.dietary_restrictions = None,
      trip_preferences.special_requirements = None\<rparr>"

definition paris_dates :: "(string \<times> datetime) list" where
  "paris_dates =
     [(''2024-06-01'', DateTime 2024 6 1), (''2024-06-02'', DateTime 2024 6 2),
      (''2024-06-07'', DateTime 2024 6 7)]"

definition dates_lib :: pylib where
  "dates_lib = table_lib [] paris_dates [] [(''2000.0'', 2000)]"

definition louvre_activity :: json where
  "louvre_activity =
     JObj [(''name'', JStr ''Louvre''), (''start_time'', JStr ''09:00''),
           (''end_time'', JStr ''12:00''), (''location'', JStr ''Rue de Rivoli''),
           (''description'', JStr ''Museum visit''), (''category'', JStr ''art''),
           (''cost'', JFloat (Finite 30)), (''booking_url'', JStr ''https://www.louvre.fr''),
           (''notes'', JStr ''Book ahead'')]"

definition cafe_activity :: json where
  "cafe_activity =
     JObj [(''name'', JStr ''Cafe''), (''start_time'', JStr ''08:00''),
           (''end_time'', JStr ''09:00''), (''location'', JStr ''Le Marais''),
           (''description'', JStr ''Breakfast''), (''category'', JStr ''food'')]"

definition paris_day1 :: json where
  "paris_day1 =
     JObj [(''date'', JStr ''2024-06-01''), (''activities'', JArr [louvre_activity]),
           (''total_cost'', JFloat (Finite 100)), (''notes'', JStr ''Arrival day'')]"

definition paris_day2 :: json where
  "paris_day2 =
     JObj [(''date'', JStr ''2024-06-02''), (''activities'', JArr [cafe_activity]),
           (''total_cost'', JFloat (Finite 100))]"

definition paris_reply_data :: json where
  "paris_reply_data =
     JObj [(''daily_plans'', JArr [paris_day1, paris_day2]), (''total_cost'', JFloat (Finite 200)),
           (''summary'', JStr ''Two days in Paris'')]"

definition paris_reply_text :: string where
  \<open>paris_reply_text =
     ''{"daily_plans": [{"date": "2024-06-01", "activities": [{"name": "Louvre", '' @
     ''"start_time": "09:00", "end_time": "12:00", "location": "Rue de Rivoli", '' @
     ''"description": "Museum visit", "category": "art", "cost": 30.0, '' @
     ''"booking_url": "https://www.louvre.fr", "notes": "Book ahead"}], '' @
     ''"total_cost": 100.0, "notes": "Arrival day"}, '' @
     ''{"date": "2024-06-02", "activities": [{"name": "Cafe", "start_time": "08:00", '' @
     ''"end_time": "09:00", "location": "Le Marais", "description": "Breakfast", '' @
     ''"category": "food"}], "total_cost": 100.0}], '' @
     ''"total_cost": 200.0, "summary": "Two days in Paris"}''\<close>

definition mismatch_reply_data :: json where
  "mismatch_reply_data =
     JObj [(''daily_plans'',
            JArr [JObj [(''date'', JStr ''2024-06-01''), (''activities'', JArr []),
                        (''total_cost'', JFloat (Finite 250))],
                  JObj [(''date'', JStr ''2024-06-02''), (''activities'', JArr []),
                        (''total_cost'', JFloat (Finite 250))]]),
           (''total_cost'', JFloat (round_double (51002 / 100))), (''summary'', JStr ''Two days'')]"

definition mismatch_reply_text :: string where
  \<open>mismatch_reply_text =
     ''{"daily_plans": [{"date": "2024-06-01", "activities": [], "total_cost": 250.0}, '' @
     ''{"date": "2024-06-02", "activities": [], "total_cost": 250.0}], '' @
     ''"total_cost": 510.02, "summary": "Two days"}''\<close>

definition paris_lib :: pylib where
  "paris_lib =
     table_lib [(paris_reply_text, paris_reply_data), (mismatch_reply_text, mismatch_reply_data)]
       paris_dates [] [(''2000.0'', 2000)]"

definition paris_plans :: "day_plan list" where
  "paris_plans =
     [\<lparr>day_plan.date = DateTime 2024 6 1,
       day_plan.activities =
         [\<lparr>activity.name = JStr ''Louvre'', activity.start_time = JStr ''09:00'',
           activity.end_time = JStr ''12:00'', activity.location = JStr ''Rue de Rivoli'',
           activity.description = JStr ''Museum visit'', activity.category = JStr ''art'',
           activity.cost = JFloat (Finite 30), activity.booking_url = JStr ''https://www.louvre.fr'',
           activity.notes = JStr ''Book ahead''\<rparr>],
       day_plan.total_cost = JFloat (Finite 100), day_plan.notes = JStr ''Arrival day''\<rparr>,
      \<lparr>day_plan.date = DateTime 2024 6 2,
       day_plan.activities =
         [\<lparr>activity.name = JStr ''Cafe'', activity.start_time = JStr ''08:00'',
           activity.end_time = JStr ''09:00'', activity.location = JStr ''Le Marais'',
           activity.description = JStr ''Breakfast'', activity.category = JStr ''food'',
           activity.cost = JNull, activity.booking_url = JNull, activity.notes = JNull\<rparr>],
       day_plan.total_cost = JFloat (Finite 100), day_plan.notes = JNull\<rparr>]"

definition paris_itinerary :: itinerary where
  "paris_itinerary =
     \<lparr>itinerary.destination = ''Paris'',
      itinerary.start_date = DateTime 2024 6 1,
      itinerary.end_date = DateTime 2024 6 7,
      itinerary.daily_plans = paris_plans,
      itinerary.total_cost = Finite 200,
      itinerary.travel_style = ''moderate'',
      itinerary.interests = [''culture'', ''food''],
      itinerary.hotel = None,
      itinerary.summary = JStr ''Two days in Paris''\<rparr>"

definition failing_llm :: "string \<Rightarrow> exn + string" where
  "failing_llm prompt = Inl (OtherError ''Connection error.'')"













definition trip_form :: "json \<Rightarrow> string \<Rightarrow> (string \<times> json) list" where
  "trip_form budget_value end_text =
     [(''destination'', JStr ''Paris''),
      (''start_date'', JStr ''2024-06-01''),
      (''end_date'', JStr end_text),
      (''budget'', budget_value),
      (''travel_style'', JStr ''moderate''),
      (''interests'', JArr [JStr ''culture'', JStr ''food'', JStr ''art'']),
      (''accommodation_preference'', JStr ''hotel''),
      (''transportation_preference'', JStr ''mixed'')]"

definition form_without_budget :: "(string \<times> json) list" where
  "form_without_budget =
     [(''destination'', JStr ''Paris''),
      (''start_date'', JStr ''2024-06-01''),
      (''end_date'', JStr ''2024-06-07''),
      (''travel_style'', JStr ''moderate''),
      (''interests'', JArr [JStr ''culture'', JStr ''food'', JStr ''art'']),
      (''accommodation_preference'', JStr ''hotel''),
      (''transportation_preference'', JStr ''mixed'')]"

definition form_state :: "(string \<times> json) list \<Rightarrow> agent_state" where
  "form_state user_input = [''user_input'' \<mapsto> PJson (JObj user_input)]"

definition unrated_result :: json where
  "unrated_result =
     JObj [(''title'', JStr ''Hotel du Nord - Booking.com''),
           (''content'', JStr ''quiet rooms with free wifi''),
           (''url'', JStr ''https://www.booking.com/nord'')]"

definition rated_result :: json where
  "rated_result =
     JObj [(''title'', JStr ''Hotel Lutetia''),
           (''content'', JStr ''rated 4.5 / 5, rooms from $320 with spa''),
           (''url'', JStr ''https://www.hotels.com/lutetia''),
           (''source'', JStr ''hotels.com'')]"

definition hotels_lib :: pylib where
  "hotels_lib =
     table_lib [] paris_dates
       [((rating_pattern, ''rated 4.5 / 5, rooms from $320 with spa''), ''4.5''),
        ((price_pattern, ''rated 4.5 / 5, rooms from $320 with spa''), ''320'')]
       [(''4.5'', 45 / 10), (''320'', 320), (''400'', 400), (''800'', 800)]"

definition unrated_hotel :: hotel where
  "unrated_hotel =
     \<lparr>hotel.name = ''Hotel du Nord'', hotel.address = JNull, hotel.price_per_night = None,
      hotel.rating = None, hotel.amenities = [''wifi''], hotel.room_type = None,
      hotel.booking_url = JStr ''https://www.booking.com/nord'', hotel.latitude = None,
      hotel.longitude = None, hotel.images = [],
      hotel.description = ''quiet rooms with free wifi'', hotel.source = JStr ''Unknown''\<rparr>"

definition rated_hotel :: hotel where
  "rated_hotel =
     \<lparr>hotel.name = ''Hotel Lutetia'', hotel.address = JNull, hotel.price_per_night = Some 320,
      hotel.rating = Some (45 / 10), hotel.amenities = [''spa''], hotel.room_type = None,
      hotel.booking_url = JStr ''https://www.hotels.com/lutetia'', hotel.latitude = None,
      hotel.longitude = None, hotel.images = [],
      hotel.description = ''rated 4.5 / 5, rooms from $320 with spa'',
      hotel.source = JStr ''hotels.com''\<rparr>"

definition two_hotels_post :: "string \<Rightarrow> nat \<Rightarrow> string + http_response" where
  "two_hotels_post query max_results =
     Inr (HttpResponse 200 ''200 OK''
            (Inr (JObj [(''results'', JArr [unrated_result, rated_result])])))"

definition no_hotels_post :: "string \<Rightarrow> nat \<Rightarrow> string + http_response" where
  "no_hotels_post query max_results =
     Inr (HttpResponse 200 ''200 OK'' (Inr (JObj [(''results'', JArr [])])))"

definition not_found_post :: "string \<Rightarrow> nat \<Rightarrow> string + http_response" where
  "not_found_post query max_results =
     Inr (HttpResponse 404 ''404 Client Error: Not Found'' (Inl ''Expecting value''))"

definition timeout_post :: "string \<Rightarrow> nat \<Rightarrow> string + http_response" where
  "timeout_post query max_results = Inl ''Connection timed out''"

text \<open>Replies at the boundary of the total-cost check: one day of 100.0 against a total of
  100.01, one day of 0.01 against a total of 0, and one day of 100.0 against a total that
  is not a number (\<open>json.loads\<close> reads \<open>NaN\<close> as the float NaN).\<close>

definition one_day :: "json \<Rightarrow> json" where
  "one_day day_cost =
     JObj [(''date'', JStr ''2024-06-01''), (''activities'', JArr []), (''total_cost'', day_cost)]"

definition one_day_reply :: "json \<Rightarrow> json \<Rightarrow> json" where
  "one_day_reply day_cost top_cost =
     JObj [(''daily_plans'', JArr [one_day day_cost]), (''total_cost'', top_cost),
           (''summary'', JStr ''One day'')]"

definition one_day_plan :: "json \<Rightarrow> day_plan" where
  "one_day_plan day_cost =
     \<lparr>day_plan.date = DateTime 2024 6 1, day_plan.activities = [],
      day_plan.total_cost = day_cost, day_plan.notes = JNull\<rparr>"

definition one_day_itinerary :: "json \<Rightarrow> pyfloat \<Rightarrow> itinerary" where
  "one_day_itinerary day_cost S =
     \<lparr>itinerary.destination = ''Paris'',
      itinerary.start_date = DateTime 2024 6 1,
      itinerary.end_date = DateTime 2024 6 7,
      itinerary.daily_plans = [one_day_plan day_cost],
      itinerary.total_cost = S,
      itinerary.travel_style = ''moderate'',
      itinerary.interests = [''culture'', ''food''],
      itinerary.hotel = None,
      itinerary.summary = JStr ''One day''\<rparr>"

definition hundred_reply_text :: string where
  \<open>hundred_reply_text =
     ''{"daily_plans": [{"date": "2024-06-01", "activities": [], "total_cost": 100.0}], '' @
     ''"total_cost": 100.01, "summary": "One day"}''\<close>

definition hundred_reply_data :: json where
  "hundred_reply_data =
     one_day_reply (JFloat (Finite 100)) (JFloat (round_double (10001 / 100)))"

definition cent_reply_text :: string where
  \<open>cent_reply_text =
     ''{"daily_plans": [{"date": "2024-06-01", "activities": [], "total_cost": 0.01}], '' @
     ''"total_cost": 0, "summary": "One day"}''\<close>

definition cent_reply_data :: json where
  "cent_reply_data = one_day_reply (JFloat (round_double (1 / 100))) (JInt 0)"

definition nan_reply_text :: string where
  \<open>nan_reply_text =
     ''{"daily_plans": [{"date": "2024-06-01", "activities": [], "total_cost": 100.0}], '' @
     ''"total_cost": NaN, "summary": "One day"}''\<close>

definition nan_reply_data :: json where
  "nan_reply_data = one_day_reply (JFloat (Finite 100)) (JFloat NaN)"

definition boundary_lib :: pylib where
  "boundary_lib =
     table_lib
       [(hundred_reply_text, hundred_reply_data), (cent_reply_text, cent_reply_data),
        (nan_reply_text, nan_reply_data)]
       paris_dates [] []"




text \<open>An answer of the search service with a status that is neither a success nor an
  error.\<close>

definition multiple_choices_post :: "string \<Rightarrow> nat \<Rightarrow> string + http_response" where
  "multiple_choices_post query max_results =
     Inr (HttpResponse 300 ''300 Multiple Choices''
            (Inr (JObj [(''results'', JArr [unrated_result, rated_result])])))"

section \<open>Properties of the float arithmetic\<close>

lemma round_half_even_int: "round_half_even (of_int n) = n"
  by (simp add: round_half_even_def)

lemma floor_log2_eq:
  assumes "2 powi e \<le> \<bar>x\<bar>" "\<bar>x\<bar> < 2 powi (e + 1)"
  shows "\<lfloor>log 2 \<bar>x\<bar>\<rfloor> = e"
proof -
  have pos: "0 < \<bar>x\<bar>" using assms(1) by (smt (verit) zero_less_power_int)
  have "2 powr (of_int e) \<le> \<bar>x\<bar>" using assms(1) by (simp add: powr_real_of_int')
  moreover have "\<bar>x\<bar> < 2 powr (of_int e + 1)"
    using assms(2) powr_real_of_int' [of "2::real" "e + 1"] by simp
  ultimately show ?thesis using pos
    by (subst floor_log_eq_powr_iff) auto
qed

lemma floor_log2_less:
  assumes "x \<noteq> 0" "\<bar>x\<bar> < 2 powi n"
  shows "\<lfloor>log 2 \<bar>x\<bar>\<rfloor> < n"
proof -
  have "log 2 \<bar>x\<bar> < log 2 (2 powi n)"
    using assms by (subst log_less_cancel_iff) auto
  also have "\<dots> = of_int n" by (simp add: powr_real_of_int' flip: powr_real_of_int')
  finally show ?thesis by linarith
qed

text \<open>A number with a significand of at most 53 bits and an exponent in the range of the
  doubles is a double: rounding leaves it as it is.\<close>

lemma round_double_exact:
  assumes x: "x = of_int m * 2 powi k" and m: "\<bar>m\<bar> < 2 ^ 53" and k: "- 1074 \<le> k" "k \<le> 971"
  shows "round_double x = Finite x"
proof (cases "x = 0")
  case True
  then show ?thesis by (simp add: round_double_def)
next
  case False
  define j where "j = double_exponent x - 52"
  have "\<bar>x\<bar> = of_int \<bar>m\<bar> * 2 powi k" by (simp add: x abs_mult)
  also have "\<dots> < 2 ^ 53 * 2 powi k"
    using m by (intro mult_strict_right_mono) (auto simp: of_int_less_numeral_power_cancel_iff)
  also have "\<dots> = 2 powi (53 + k)" by (simp add: power_int_add)
  finally have lt: "\<bar>x\<bar> < 2 powi (53 + k)" .
  then have "\<lfloor>log 2 \<bar>x\<bar>\<rfloor> < 53 + k" using False by (intro floor_log2_less)
  with k(1) have jk: "j \<le> k" by (simp add: j_def double_exponent_def)
  have ulp: "double_ulp x = 2 powi j" by (simp add: double_ulp_def j_def)
  have "(2::real) powi k = 2 powi j * 2 powi (k - j)"
    by (simp flip: power_int_add)
  also have "(2::real) powi (k - j) = of_int (2 ^ nat (k - j))"
    using jk by (simp add: power_int_def)
  finally have q: "x / 2 powi j = of_int (m * 2 ^ nat (k - j))"
    by (simp add: x)
  have "of_int (round_half_even (x / double_ulp x)) * double_ulp x = x"
    unfolding ulp q round_half_even_int using q by (simp add: field_simps)
  moreover have "\<bar>x\<bar> < 2 ^ 1024"
  proof -
    have "(2::real) powi (53 + k) \<le> 2 powi 1024"
      using k(2) by (intro power_int_increasing) auto
    with lt show ?thesis by simp
  qed
  ultimately show ?thesis using False by (auto simp: round_double_def Let_def)
qed

lemma round_double_zero: "round_double 0 = Finite 0"
  by (simp add: round_double_def)

lemma round_double_int: "\<bar>m\<bar> < 2 ^ 53 \<Longrightarrow> round_double (of_int m) = Finite (of_int m)"
  using round_double_exact [of "of_int m" m 0] by simp

lemma round_double_numeral:
  "(numeral w :: int) < 2 ^ 53 \<Longrightarrow> round_double (numeral w) = Finite (numeral w)"
  using round_double_int [of "numeral w"] by simp

lemma round_double_dyadic:
  "\<bar>m\<bar> < 2 ^ 53 \<Longrightarrow> j \<le> 1074 \<Longrightarrow> round_double (of_int m / 2 ^ j) = Finite (of_int m / 2 ^ j)"
  using round_double_exact [of "of_int m / 2 ^ j" m "- int j"]
  by (simp add: power_int_minus field_simps)

text \<open>The rounding of a number whose binary exponent is known.\<close>

lemma round_double_eval:
  assumes "2 powi e \<le> \<bar>x\<bar>" "\<bar>x\<bar> < 2 powi (e + 1)" "- 1022 \<le> e"
  shows "round_double x =
    (let r = of_int (round_half_even (x / 2 powi (e - 52))) * 2 powi (e - 52) in
     if r \<ge> 2 ^ 1024 then PosInf else if r \<le> - (2 ^ 1024) then NegInf else Finite r)"
proof -
  have "x \<noteq> 0" using assms(1) by (smt (verit) zero_less_power_int abs_zero)
  moreover have "double_exponent x = e"
    using floor_log2_eq [OF assms(1,2)] assms(3) by (simp add: double_exponent_def)
  ultimately show ?thesis by (simp add: round_double_def double_ulp_def)
qed

text \<open>The doubles that the decimal numerals of the sample replies denote.\<close>

lemma double_0_01: "round_double (1 / 100) = Finite (5764607523034235 / 2 ^ 59)"
  using round_double_eval [of "- 7" "1 / 100"]
  by (simp add: round_half_even_def Let_def power_int_minus)

lemma double_100_01: "round_double (10001 / 100) = Finite (7037578105208177 / 2 ^ 46)"
  using round_double_eval [of 6 "10001 / 100"]
  by (simp add: round_half_even_def Let_def power_int_minus)

lemma double_510_02: "round_double (51002 / 100) = Finite (1121545840796631 / 2 ^ 41)"
  using round_double_eval [of 8 "51002 / 100"]
  by (simp add: round_half_even_def Let_def power_int_minus)

lemma int_to_float_exact: "\<bar>i\<bar> < 2 ^ 53 \<Longrightarrow> int_to_float i = Inr (Finite (of_int i))"
  by (simp add: int_to_float_def round_double_int)


section \<open>Properties of the extraction\<close>

lemma first_split_absent: "\<not> str_in sep s \<Longrightarrow> first_split sep s = None"
  by (induction s) auto

lemma split_str_absent: "\<not> str_in sep s \<Longrightarrow> split_str sep s = [s]"
proof -
  assume "\<not> str_in sep s"
  then have "first_split sep s = None" by (rule first_split_absent)
  then show ?thesis by (simp add: split_str.simps [of sep s])
qed

lemma split_str_found:
  "sep \<noteq> [] \<Longrightarrow> first_split sep s = Some (a, b) \<Longrightarrow> split_str sep s = a # split_str sep b"
  by (simp add: split_str.simps [of sep s])

lemma prefix_long: "length sep \<le> length x \<Longrightarrow> prefix sep (x @ y) = prefix sep x"
  by (auto simp: prefix_append)

lemma first_split_first:
  "sep \<noteq> [] \<Longrightarrow> \<not> str_in sep (a @ butlast sep) \<Longrightarrow> first_split sep (a @ sep @ b) = Some (a, b)"
proof (induction a)
  case Nil
  then show ?case by (cases sep) auto
next
  case (Cons c a)
  have "length sep \<le> length (c # a @ butlast sep)" by simp
  then have "prefix sep ((c # a @ butlast sep) @ [last sep] @ b) = prefix sep (c # a @ butlast sep)"
    by (rule prefix_long)
  moreover have "(c # a @ butlast sep) @ [last sep] @ b = c # a @ sep @ b"
    using Cons.prems(1) by (metis append.assoc append_Cons append_butlast_last_id)
  moreover have "\<not> prefix sep (c # a @ butlast sep)" using Cons.prems(2) by simp
  ultimately have "\<not> prefix sep (c # a @ sep @ b)" by metis
  moreover have "first_split sep (a @ sep @ b) = Some (a, b)"
    using Cons by simp
  ultimately show ?case by simp
qed

lemma str_in_weaken: "str_in (x @ y) s \<Longrightarrow> str_in x s"
  by (induction s) (auto simp: append_prefixD)

lemma tag_needs_fence: \<open>\<not> str_in ''```'' s \<Longrightarrow> \<not> str_in ''```json'' s\<close>
  using str_in_weaken [of \<open>''```''\<close> \<open>''json''\<close> s] by auto

lemma no_tag_after_body:
  \<open>\<not> str_in ''```'' (body @ ''``'') \<Longrightarrow> \<not> str_in ''```json'' (''```'' @ post) \<Longrightarrow>
     \<not> str_in ''```json'' (body @ ''```'' @ post)\<close>
proof (induction body)
  case Nil
  then show ?case by simp
next
  case (Cons c bs)
  have 1: \<open>\<not> str_in ''```json'' (bs @ ''```'' @ post)\<close>
    using Cons by simp
  have \<open>\<not> prefix ''```'' (c # bs @ ''``'')\<close> using Cons.prems(1) by simp
  moreover have \<open>prefix ''```'' ((c # bs @ ''``'') @ ''`'' @ post) = prefix ''```'' (c # bs @ ''``'')\<close>
    by (rule prefix_long) simp
  moreover have \<open>(c # bs @ ''``'') @ ''`'' @ post = c # bs @ ''```'' @ post\<close> by simp
  ultimately have \<open>\<not> prefix ''```'' (c # bs @ ''```'' @ post)\<close> by metis
  moreover have \<open>prefix ''```'' z\<close> if \<open>prefix ''```json'' z\<close> for z
    using that append_prefixD [of \<open>''```''\<close> \<open>''json''\<close> z] by simp
  ultimately have \<open>\<not> prefix ''```json'' (c # bs @ ''```'' @ post)\<close> by blast
  with 1 show ?case by (simp del: Cons_prefix_Cons)
qed

lemma extract_no_fence: \<open>\<not> str_in ''```'' r \<Longrightarrow> extract_json_str r = Inr r\<close>
  by (simp add: extract_json_str_def tag_needs_fence)

lemma extract_tagged_block:
  assumes \<open>\<not> str_in ''```json'' (pre @ ''```jso'')\<close>
    and \<open>\<not> str_in ''```'' (body @ ''``'')\<close>
    and \<open>\<not> str_in ''```json'' (''```'' @ post)\<close>
  shows \<open>extract_json_str (pre @ ''```json'' @ body @ ''```'' @ post) = Inr body\<close>
proof -
  let ?r = \<open>pre @ ''```json'' @ body @ ''```'' @ post\<close>
  let ?after = \<open>body @ ''```'' @ post\<close>
  have fs: \<open>first_split ''```json'' ?r = Some (pre, ?after)\<close>
    using first_split_first [of \<open>''```json''\<close> pre ?after] assms(1) by simp
  then have \<open>str_in ''```json'' ?r\<close>
    using first_split_absent by fastforce
  moreover have \<open>split_str ''```json'' ?r = pre # split_str ''```json'' ?after\<close>
    using fs by (intro split_str_found) simp_all
  moreover have \<open>split_str ''```json'' ?after = [?after]\<close>
    by (intro split_str_absent no_tag_after_body assms)
  moreover have \<open>first_split ''```'' ?after = Some (body, post)\<close>
    using first_split_first [of \<open>''```''\<close> body post] assms(2) by simp
  then have \<open>split_str ''```'' ?after = body # split_str ''```'' post\<close>
    by (intro split_str_found) simp_all
  ultimately show ?thesis
    by (simp add: extract_json_str_def list_item_def)
qed

lemma extract_plain_block:
  assumes \<open>\<not> str_in ''```json'' (pre @ ''```'' @ body @ ''```'' @ post)\<close>
    and \<open>\<not> str_in ''```'' (pre @ ''``'')\<close>
    and \<open>\<not> str_in ''```'' (body @ ''``'')\<close>
  shows \<open>extract_json_str (pre @ ''```'' @ body @ ''```'' @ post) = Inr body\<close>
proof -
  let ?r = \<open>pre @ ''```'' @ body @ ''```'' @ post\<close>
  let ?after = \<open>body @ ''```'' @ post\<close>
  have fs: \<open>first_split ''```'' ?r = Some (pre, ?after)\<close>
    using first_split_first [of \<open>''```''\<close> pre ?after] assms(2) by simp
  then have \<open>str_in ''```'' ?r\<close>
    using first_split_absent by fastforce
  moreover have \<open>split_str ''```'' ?r = pre # split_str ''```'' ?after\<close>
    using fs by (intro split_str_found) simp_all
  moreover have \<open>first_split ''```'' ?after = Some (body, post)\<close>
    using first_split_first [of \<open>''```''\<close> body post] assms(3) by simp
  then have \<open>split_str ''```'' ?after = body # split_str ''```'' post\<close>
    by (intro split_str_found) simp_all
  ultimately show ?thesis
    using assms(1) by (simp add: extract_json_str_def list_item_def)
qed

lemma no_fence_padded:
  assumes \<open>\<not> str_in ''```'' s\<close>
  shows \<open>\<not> str_in ''```'' ((CHR 10 # s @ [CHR 10]) @ ''``'')\<close>
proof -
  have \<open>\<not> str_in ''```'' (t @ CHR 10 # ''``'')\<close> if \<open>\<not> str_in ''```'' t\<close> for t
    using that
  proof (induction t)
    case Nil
    then show ?case by simp
  next
    case (Cons c t)
    then have ih: \<open>\<not> str_in ''```'' (t @ CHR 10 # ''``'')\<close> by simp
    have \<open>\<not> prefix ''```'' (c # t)\<close> using Cons.prems by simp
    then have \<open>\<not> prefix ''```'' (c # t @ CHR 10 # ''``'')\<close>
      by (cases t; cases "tl t") auto
    with ih show ?case by simp
  qed
  from this [OF assms] show ?thesis by simp
qed

lemma extract_fence_json:
  \<open>\<not> str_in ''```'' s \<Longrightarrow> extract_json_str (fence_json s) = Inr (CHR 10 # s @ [CHR 10])\<close>
  using extract_tagged_block [of \<open>[]\<close> \<open>CHR 10 # s @ [CHR 10]\<close> \<open>[]\<close>] no_fence_padded [of s]
  by (simp add: fence_json_def)

text \<open>
  Claim C3, amended.  For every payload \<open>s\<close> that contains no run of three backticks, the
  reply that wraps \<open>s\<close> in a fenced block tagged \<open>json\<close> yields the text \<open>s\<close> between two
  line breaks and the bare reply yields \<open>s\<close>; the two parse to the same value, a decoder
  ignoring the line breaks around a document.  Extraction follows the priority order:
  the body of a block tagged \<open>json\<close> when there is one (also after an untagged block),
  else the body of the first fenced block, else the whole text.
\<close>

theorem fenced_reply_extraction:
  \<open>(\<not> str_in ''```'' s \<longrightarrow>
      extract_json_str (fence_json s) = Inr (CHR 10 # s @ [CHR 10]) \<and>
      extract_json_str s = Inr s \<and>
      (json_loads L (CHR 10 # s @ [CHR 10]) = json_loads L s \<longrightarrow>
         parse_llm_response L (fence_json s) = parse_llm_response L s)) \<and>
   (\<not> str_in ''```json'' (pre @ ''```jso'') \<and> \<not> str_in ''```'' (body @ ''``'') \<and>
      \<not> str_in ''```json'' (''```'' @ post) \<longrightarrow>
      extract_json_str (pre @ ''```json'' @ body @ ''```'' @ post) = Inr body) \<and>
   (\<not> str_in ''```json'' (pre' @ ''```'' @ body' @ ''```'' @ post') \<and>
      \<not> str_in ''```'' (pre' @ ''``'') \<and> \<not> str_in ''```'' (body' @ ''``'') \<longrightarrow>
      extract_json_str (pre' @ ''```'' @ body' @ ''```'' @ post') = Inr body') \<and>
   (\<not> str_in ''```'' r \<longrightarrow> extract_json_str r = Inr r)\<close>
proof (intro conjI impI)
  assume s: \<open>\<not> str_in ''```'' s\<close>
  show 1: \<open>extract_json_str (fence_json s) = Inr (CHR 10 # s @ [CHR 10])\<close>
    using s by (rule extract_fence_json)
  show 2: \<open>extract_json_str s = Inr s\<close>
    using s by (rule extract_no_fence)
  assume \<open>json_loads L (CHR 10 # s @ [CHR 10]) = json_loads L s\<close>
  with 1 2 show \<open>parse_llm_response L (fence_json s) = parse_llm_response L s\<close>
    by (simp add: parse_llm_response_def)
next
  assume \<open>\<not> str_in ''```json'' (pre @ ''```jso'') \<and> \<not> str_in ''```'' (body @ ''``'') \<and>
      \<not> str_in ''```json'' (''```'' @ post)\<close>
  then show \<open>extract_json_str (pre @ ''```json'' @ body @ ''```'' @ post) = Inr body\<close>
    using extract_tagged_block by blast
next
  assume \<open>\<not> str_in ''```json'' (pre' @ ''```'' @ body' @ ''```'' @ post') \<and>
      \<not> str_in ''```'' (pre' @ ''``'') \<and> \<not> str_in ''```'' (body' @ ''``'')\<close>
  then show \<open>extract_json_str (pre' @ ''```'' @ body' @ ''```'' @ post') = Inr body'\<close>
    using extract_plain_block by blast
next
  assume \<open>\<not> str_in ''```'' r\<close>
  then show \<open>extract_json_str r = Inr r\<close> by (rule extract_no_fence)
qed

theorem fenced_reply_extraction_witness:
  \<open>parse_llm_response empty_object_lib (fence_json ''{}'') = Inr (JObj []) \<and>
   parse_llm_response empty_object_lib ''{}'' = Inr (JObj []) \<and>
   extract_json_str (''```text'' @ ''x'' @ ''```'' @ '' then '' @ ''```json'' @ ''{}'' @ ''```'' @ '' end'') = Inr ''{}'' \<and>
   extract_json_str (''see '' @ ''```'' @ ''{}'' @ ''```'' @ '' end'') = Inr ''{}'' \<and>
   extract_json_str ''{}'' = Inr ''{}''\<close>
proof -
  have h1: \<open>\<not> str_in ''```'' ''{}''\<close> by simp
  have h2: \<open>json_loads empty_object_lib (CHR 10 # ''{}'' @ [CHR 10]) = json_loads empty_object_lib ''{}''\<close>
    by (simp add: empty_object_lib_def table_lib_def)
  have h3: \<open>\<not> str_in ''```json'' ((''```text'' @ ''x'' @ ''```'' @ '' then '') @ ''```jso'') \<and>
      \<not> str_in ''```'' (''{}'' @ ''``'') \<and> \<not> str_in ''```json'' (''```'' @ '' end'')\<close>
    by simp
  have h4: \<open>\<not> str_in ''```json'' (''see '' @ ''```'' @ ''{}'' @ ''```'' @ '' end'') \<and>
      \<not> str_in ''```'' (''see '' @ ''``'') \<and> \<not> str_in ''```'' (''{}'' @ ''``'')\<close>
    by simp
  have p: \<open>parse_llm_response empty_object_lib ''{}'' = Inr (JObj [])\<close>
    using h1 by (simp add: parse_llm_response_def extract_no_fence empty_object_lib_def table_lib_def)
  note t = fenced_reply_extraction [of \<open>''{}''\<close> empty_object_lib
      \<open>''```text'' @ ''x'' @ ''```'' @ '' then ''\<close> \<open>''{}''\<close> \<open>'' end''\<close>
      \<open>''see ''\<close> \<open>''{}''\<close> \<open>'' end''\<close> \<open>''{}''\<close>]
  from t h1 h2 have \<open>parse_llm_response empty_object_lib (fence_json ''{}'') =
      parse_llm_response empty_object_lib ''{}''\<close> by blast
  moreover from t h3 have \<open>extract_json_str ((''```text'' @ ''x'' @ ''```'' @ '' then '') @ ''```json'' @ ''{}'' @ ''```'' @ '' end'') = Inr ''{}''\<close>
    by blast
  moreover from t h4 have \<open>extract_json_str (''see '' @ ''```'' @ ''{}'' @ ''```'' @ '' end'') = Inr ''{}''\<close>
    by blast
  moreover from t h1 have \<open>extract_json_str ''{}'' = Inr ''{}''\<close> by blast
  ultimately show ?thesis using p by simp
qed

text \<open>
  The claim as stated, for every payload, fails on a payload with fences inside a string:
  the bare reply \<open>{"a": "```1```"}\<close> is cut between its two fences and parses to the
  number 1, while the wrapped reply is cut at the first inner fence and does not parse.
\<close>

theorem fenced_reply_counterexample:
  \<open>parse_llm_response backtick_lib (fence_json backtick_reply) \<noteq>
     parse_llm_response backtick_lib backtick_reply \<and>
   parse_llm_response backtick_lib backtick_reply = Inr (JInt 1) \<and>
   extract_json_str (fence_json backtick_reply) = Inr (CHR 10 # ''{"a": "'')\<close>
  by (simp add: parse_llm_response_def extract_json_str_def split_str.simps list_item_def
      backtick_lib_def backtick_reply_def table_lib_def fence_json_def)

section \<open>Properties of the prompt\<close>

lemma str_in_prefix: "prefix x s \<Longrightarrow> str_in x s"
  by (cases s) auto

lemma str_in_here: "str_in x (x @ b)"
  by (rule str_in_prefix) simp

lemma str_in_skip: "str_in x s \<Longrightarrow> str_in x (p @ s)"
  by (induction p) auto

text \<open>
  Claim C7.  The prompt is a function of its arguments alone: equal arguments give equal
  prompts.  Without a hotel and without attractions the prompt contains the destination,
  the two trip dates as \<open>str\<close> renders them, and the marker \<open>Not selected yet\<close>.
\<close>

theorem prompt_pure_and_complete:
  "(L = L' \<and> sn = sn' \<and> p = p' \<and> h = h' \<and> as = as' \<longrightarrow>
      create_llm_prompt L sn p h as = create_llm_prompt L' sn' p' h' as') \<and>
   str_in (trip_preferences.destination p) (create_llm_prompt L sn p None []) \<and>
   str_in (date_str L (trip_preferences.start_date p)) (create_llm_prompt L sn p None []) \<and>
   str_in (date_str L (trip_preferences.end_date p)) (create_llm_prompt L sn p None []) \<and>
   str_in ''Not selected yet'' (create_llm_prompt L sn p None [])"
proof (intro conjI impI)
  assume "L = L' \<and> sn = sn' \<and> p = p' \<and> h = h' \<and> as = as'"
  then show "create_llm_prompt L sn p h as = create_llm_prompt L' sn' p' h' as'" by simp
next
  show "str_in (trip_preferences.destination p) (create_llm_prompt L sn p None [])"
    unfolding create_llm_prompt_def by (rule str_in_here | rule str_in_skip)+
next
  show "str_in (date_str L (trip_preferences.start_date p)) (create_llm_prompt L sn p None [])"
    unfolding create_llm_prompt_def by (rule str_in_here | rule str_in_skip)+
next
  show "str_in (date_str L (trip_preferences.end_date p)) (create_llm_prompt L sn p None [])"
    unfolding create_llm_prompt_def by (rule str_in_here | rule str_in_skip)+
next
  show "str_in ''Not selected yet'' (create_llm_prompt L sn p None [])"
    unfolding create_llm_prompt_def option.case by (rule str_in_here | rule str_in_skip)+
qed

theorem prompt_pure_and_complete_witness:
  "str_in ''Paris'' (create_llm_prompt dates_lib (\<lambda>n. []) paris_prefs None []) \<and>
   str_in ''2024-06-01'' (create_llm_prompt dates_lib (\<lambda>n. []) paris_prefs None []) \<and>
   str_in ''2024-06-07'' (create_llm_prompt dates_lib (\<lambda>n. []) paris_prefs None []) \<and>
   str_in ''Not selected yet'' (create_llm_prompt dates_lib (\<lambda>n. []) paris_prefs None [])"
proof -
  have d: "trip_preferences.destination paris_prefs = ''Paris''"
    "date_str dates_lib (trip_preferences.start_date paris_prefs) = ''2024-06-01''"
    "date_str dates_lib (trip_preferences.end_date paris_prefs) = ''2024-06-07''"
    by (simp_all add: paris_prefs_def dates_lib_def table_lib_def paris_dates_def)
  from prompt_pure_and_complete [of dates_lib dates_lib "\<lambda>n. []" "\<lambda>n. []" paris_prefs paris_prefs None None "[]" "[]"]
  show ?thesis unfolding d by blast
qed

section \<open>Properties of the itinerary builder\<close>

lemma ebind_Inr_iff: "ebind m f = Inr y \<longleftrightarrow> (\<exists>x. m = Inr x \<and> f x = Inr y)"
  by (cases m) auto

lemma float_add_Inr: "float_add x v = Inr z \<longleftrightarrow> (\<exists>y. num_of v = Some (Inr y) \<and> z = float_plus x y)"
  by (cases "num_of v") (auto simp: float_add_def ebind_Inr_iff)

lemma float_sub_Inr: "float_sub x v = Inr z \<longleftrightarrow> (\<exists>y. num_of v = Some (Inr y) \<and> z = float_minus x y)"
  by (cases "num_of v") (auto simp: float_sub_def ebind_Inr_iff)

lemma build_day_Inr:
  assumes "build_day L d t = Inr (dp, t')"
  shows "py_item d ''total_cost'' = Inr (day_plan.total_cost dp)"
    and "\<exists>y. num_of (day_plan.total_cost dp) = Some (Inr y) \<and> t' = float_plus t y"
    and "\<exists>v. py_item d ''date'' = Inr v \<and> parse_day_date L v = Inr (day_plan.date dp)"
    and "\<exists>v acts. py_item d ''activities'' = Inr v \<and> py_iter v = Inr acts \<and>
           map_exn make_activity acts = Inr (day_plan.activities dp)"
    and "py_get d ''notes'' = Inr (day_plan.notes dp)"
  using assms
  by (auto simp: build_day_def ebind_Inr_iff float_add_Inr)

lemma build_day_total: "build_day L d t = Inr (dp, t') \<Longrightarrow> t' = float_plus t (day_float d)"
  using build_day_Inr(1,2) [of L d t dp t']
  by (auto simp: day_float_def day_cost_value_def)

lemma build_day_cost: "build_day L d t = Inr (dp, t') \<Longrightarrow> day_plan.total_cost dp = day_cost_value d"
  using build_day_Inr(1) [of L d t dp t'] by (simp add: day_cost_value_def)

lemma build_days_Inr:
  "build_days L days plans t = Inr (plans', t') \<Longrightarrow>
     (\<exists>new. plans' = plans @ new \<and> length new = length days \<and>
        map day_plan.total_cost new = map day_cost_value days) \<and>
     t' = foldl float_plus t (map day_float days)"
proof (induction days arbitrary: plans t)
  case Nil
  then show ?case by simp
next
  case (Cons d days)
  from Cons.prems obtain dp t1 where
    d: "build_day L d t = Inr (dp, t1)" and
    rest: "build_days L days (plans @ [dp]) t1 = Inr (plans', t')"
    by (auto simp: ebind_Inr_iff)
  from Cons.IH [OF rest] obtain new where
    new: "plans' = (plans @ [dp]) @ new" "length new = length days"
      "map day_plan.total_cost new = map day_cost_value days"
    and t': "t' = foldl float_plus t1 (map day_float days)"
    by blast
  have "plans' = plans @ (dp # new)" using new(1) by simp
  moreover have "length (dp # new) = length (d # days)" using new(2) by simp
  moreover have "map day_plan.total_cost (dp # new) = map day_cost_value (d # days)"
    using new(3) build_day_cost [OF d] by simp
  moreover have "t' = foldl float_plus t (map day_float (d # days))"
    using t' build_day_total [OF d] by simp
  ultimately show ?case by blast
qed

lemma build_days_sum:
  "build_days L days [] (Finite 0) = Inr (plans, S) \<Longrightarrow> S = float_sum (map day_float days)"
  using build_days_Inr [of L days "[]" "Finite 0" plans S] by (simp add: float_sum_def)

lemma truthy_iter_nonempty: "truthy v \<Longrightarrow> py_iter v = Inr xs \<Longrightarrow> xs \<noteq> []"
  by (cases v) auto

text \<open>What a successful reconciliation has gone through.\<close>

lemma reconcile_response_Inr:
  assumes "reconcile_response L p h text = Inr it"
  obtains data v_days days plans S v_total T v_summary where
    "text \<noteq> []"
    "parse_llm_response L text = Inr data"
    "py_item data ''daily_plans'' = Inr v_days" "truthy v_days" "py_iter v_days = Inr days"
    "build_days L days [] (Finite 0) = Inr (plans, S)"
    "py_item data ''total_cost'' = Inr v_total" "num_of v_total = Some (Inr T)"
    "\<not> float_gt (float_abs (float_minus S T)) (round_double (1 / 100))"
    "py_item data ''summary'' = Inr v_summary"
    "it = \<lparr>itinerary.destination = trip_preferences.destination p,
           itinerary.start_date = trip_preferences.start_date p,
           itinerary.end_date = trip_preferences.end_date p,
           itinerary.daily_plans = plans,
           itinerary.total_cost = S,
           itinerary.travel_style = trip_preferences.travel_style p,
           itinerary.interests = trip_preferences.interests p,
           itinerary.hotel = h,
           itinerary.summary = v_summary\<rparr>"
proof -
  from assms have ne: "text \<noteq> []"
    by (auto simp: reconcile_response_def split: if_splits)
  with assms obtain data where data: "parse_llm_response L text = Inr data"
    by (auto simp: reconcile_response_def ebind_Inr_iff)
  with assms ne obtain v_plans where vp: "py_get data ''daily_plans'' = Inr v_plans" "truthy v_plans"
    by (auto simp: reconcile_response_def ebind_Inr_iff split: if_splits)
  with assms ne data obtain v_days days r v_total diff where
    s: "py_item data ''daily_plans'' = Inr v_days" "py_iter v_days = Inr days"
       "build_days L days [] (Finite 0) = Inr r" "py_item data ''total_cost'' = Inr v_total"
       "float_sub (snd r) v_total = Inr diff"
       "\<not> float_gt (float_abs diff) (round_double (1 / 100))"
    by (auto simp: reconcile_response_def ebind_Inr_iff split: if_splits)
  from s(5) obtain T where T: "num_of v_total = Some (Inr T)" "diff = float_minus (snd r) T"
    by (auto simp: float_sub_Inr)
  from assms ne data vp s obtain v_summary where
    sm: "py_item data ''summary'' = Inr v_summary"
    and it: "it = \<lparr>itinerary.destination = trip_preferences.destination p,
           itinerary.start_date = trip_preferences.start_date p,
           itinerary.end_date = trip_preferences.end_date p,
           itinerary.daily_plans = fst r,
           itinerary.total_cost = snd r,
           itinerary.travel_style = trip_preferences.travel_style p,
           itinerary.interests = trip_preferences.interests p,
           itinerary.hotel = h,
           itinerary.summary = v_summary\<rparr>"
    by (auto simp: reconcile_response_def ebind_Inr_iff split: if_splits)
  have same: "v_days = v_plans"
    using vp(1) s(1) by (cases data) (auto split: option.splits)
  show thesis
    using that [of data v_days days "fst r" "snd r" v_total T v_summary]
      ne data s(1,2,3,4,6) T sm it vp(2) same by simp
qed

lemma map_exn_Inr_iff: "map_exn f xs = Inr ys \<longleftrightarrow> list_all2 (\<lambda>x y. f x = Inr y) xs ys"
proof (induction xs arbitrary: ys)
  case Nil
  then show ?case by auto
next
  case (Cons x xs)
  show ?case
    by (cases ys) (auto simp: ebind_Inr_iff Cons.IH)
qed








lemma py_item_get: "py_item v k = Inr x \<Longrightarrow> py_get v k = Inr x"
  by (cases v) (auto split: option.splits)

lemma build_itinerary_Inr:
  "build_itinerary L sn llm p h atts = Inr it \<longleftrightarrow>
     (\<exists>text. llm (create_llm_prompt L sn p h atts) = Inr text \<and>
        reconcile_response L p h text = Inr it)"
  by (auto simp: build_itinerary_def build_itinerary_try_def ebind_Inr_iff split: sum.splits)

lemma build_itinerary_of_reply:
  "llm (create_llm_prompt L sn p h atts) = Inr text \<Longrightarrow>
     build_itinerary L sn llm p h atts =
       (case reconcile_response L p h text of
          Inl e \<Rightarrow> Inl (ValueError (''Failed to build itinerary: '' @ exn_str e))
        | Inr it \<Rightarrow> Inr it)"
  by (simp add: build_itinerary_def build_itinerary_try_def)

text \<open>The sample replies, run through the steps of the builder.\<close>

lemma paris_reply_parsed: "parse_llm_response paris_lib paris_reply_text = Inr paris_reply_data"
proof -
  have \<open>\<not> str_in ''```'' paris_reply_text\<close>
    by (simp add: paris_reply_text_def)
  then have "extract_json_str paris_reply_text = Inr paris_reply_text"
    by (rule extract_no_fence)
  then show ?thesis
    by (simp add: parse_llm_response_def paris_lib_def table_lib_def)
qed

lemma paris_days_built:
  "build_days paris_lib [paris_day1, paris_day2] [] (Finite 0) = Inr (paris_plans, Finite 200)"
  by (simp add: build_day_def make_activity_def parse_day_date_def float_add_def
      round_double_numeral
      paris_day1_def paris_day2_def louvre_activity_def cafe_activity_def paris_plans_def
      paris_lib_def table_lib_def paris_dates_def)

lemma paris_reply_nonempty: "paris_reply_text \<noteq> []"
  by (simp add: paris_reply_text_def)

lemma paris_tolerance:
  "\<not> float_gt (float_abs (float_minus (Finite 200) (Finite 200))) (round_double (1 / 100))"
  by (simp add: float_minus_def round_double_zero double_0_01)

lemma paris_reply_built:
  "build_itinerary paris_lib sn (\<lambda>prompt. Inr paris_reply_text) paris_prefs None [] =
     Inr paris_itinerary"
  using paris_reply_parsed paris_days_built paris_reply_nonempty paris_tolerance
  by (simp add: build_itinerary_of_reply reconcile_response_def float_sub_def
      paris_reply_data_def paris_itinerary_def paris_prefs_def)

lemma mismatch_reply_parsed:
  "parse_llm_response paris_lib mismatch_reply_text = Inr mismatch_reply_data"
proof -
  have \<open>\<not> str_in ''```'' mismatch_reply_text\<close>
    by (simp add: mismatch_reply_text_def)
  then have "extract_json_str mismatch_reply_text = Inr mismatch_reply_text"
    by (rule extract_no_fence)
  moreover have "mismatch_reply_text \<noteq> paris_reply_text"
    by (simp add: mismatch_reply_text_def paris_reply_text_def)
  ultimately show ?thesis
    by (simp add: parse_llm_response_def paris_lib_def table_lib_def)
qed

lemma boundary_replies_parsed:
  "parse_llm_response boundary_lib hundred_reply_text = Inr hundred_reply_data"
  "parse_llm_response boundary_lib cent_reply_text = Inr cent_reply_data"
  "parse_llm_response boundary_lib nan_reply_text = Inr nan_reply_data"
proof -
  have \<open>\<not> str_in ''```'' hundred_reply_text\<close> \<open>\<not> str_in ''```'' cent_reply_text\<close>
    \<open>\<not> str_in ''```'' nan_reply_text\<close>
    by (simp_all add: hundred_reply_text_def cent_reply_text_def nan_reply_text_def)
  then have x: "extract_json_str hundred_reply_text = Inr hundred_reply_text"
    "extract_json_str cent_reply_text = Inr cent_reply_text"
    "extract_json_str nan_reply_text = Inr nan_reply_text"
    by (simp_all add: extract_no_fence)
  have ne: "cent_reply_text \<noteq> hundred_reply_text" "nan_reply_text \<noteq> hundred_reply_text"
    "nan_reply_text \<noteq> cent_reply_text"
    by (simp_all add: hundred_reply_text_def cent_reply_text_def nan_reply_text_def)
  show "parse_llm_response boundary_lib hundred_reply_text = Inr hundred_reply_data"
    "parse_llm_response boundary_lib cent_reply_text = Inr cent_reply_data"
    "parse_llm_response boundary_lib nan_reply_text = Inr nan_reply_data"
    using x ne by (simp_all add: parse_llm_response_def boundary_lib_def table_lib_def)
qed

lemma one_day_built:
  "build_days boundary_lib [one_day (JFloat y)] [] (Finite 0) =
     Inr ([one_day_plan (JFloat y)], float_plus (Finite 0) y)"
  by (simp add: build_day_def parse_day_date_def float_add_def one_day_def one_day_plan_def
      boundary_lib_def table_lib_def paris_dates_def)

text \<open>The float arithmetic of the three runs: \<open>0.0 + 100.0\<close> is 100.0 and
  \<open>100.0 - 100.01\<close> is the double \<open>-0.010000000000005116\<close>, beyond the double \<open>0.01\<close>;
  \<open>0.0 + 0.01\<close> and \<open>0.01 - 0\<close> are the double \<open>0.01\<close>, which is greater than the
  number 1/100.\<close>

lemma hundred_sum: "float_plus (Finite 0) (Finite 100) = Finite 100"
  by (simp add: round_double_numeral)

lemma hundred_difference:
  "float_minus (Finite 100) (round_double (10001 / 100)) = Finite (- (703687441777 / 2 ^ 46))"
  using round_double_dyadic [of "- 703687441777" 46]
  by (simp add: float_minus_def double_100_01)

lemma hundred_beyond:
  "float_gt (float_abs (float_minus (Finite 100) (round_double (10001 / 100))))
     (round_double (1 / 100))"
  by (simp only: hundred_difference) (simp add: double_0_01)

lemma cent_sum: "float_plus (Finite 0) (round_double (1 / 100)) = round_double (1 / 100)"
  using round_double_dyadic [of 5764607523034235 59]
  by (simp add: double_0_01)

lemma cent_difference:
  "float_minus (round_double (1 / 100)) (Finite 0) = round_double (1 / 100)"
  using round_double_dyadic [of 5764607523034235 59]
  by (simp add: float_minus_def double_0_01)

lemma cent_within:
  "\<not> float_gt (float_abs (float_minus (round_double (1 / 100)) (Finite 0)))
       (round_double (1 / 100))"
  by (simp only: cent_difference) (simp add: double_0_01)

lemma boundary_reply_run:
  assumes "parse_llm_response boundary_lib reply = Inr (one_day_reply (JFloat y) v_total)"
    and "reply \<noteq> []"
  shows "build_itinerary boundary_lib sn (\<lambda>prompt. Inr reply) paris_prefs None [] =
     (case float_sub (float_plus (Finite 0) y) v_total of
        Inl e \<Rightarrow> Inl (ValueError (''Failed to build itinerary: '' @ exn_str e))
      | Inr diff \<Rightarrow>
          if float_gt (float_abs diff) (round_double (1 / 100))
          then Inl (ValueError ''Failed to build itinerary: Total cost mismatch in itinerary'')
          else Inr (one_day_itinerary (JFloat y) (float_plus (Finite 0) y)))"
  using assms one_day_built [of y]
  by (cases "float_sub (float_plus (Finite 0) y) v_total")
     (simp_all add: build_itinerary_of_reply reconcile_response_def one_day_reply_def
        one_day_def one_day_itinerary_def paris_prefs_def)

text \<open>
  Claim C1, as the code has it.  Take a reply that parses and whose day entries are all
  assembled, with accumulated sum \<open>S\<close> (the float sum of the per-day \<open>total_cost\<close> values,
  formed from \<open>0.0\<close> in the order of the days), and whose top-level \<open>total_cost\<close> is a
  number, \<open>T\<close> as a float.  Construction aborts with the total-cost-mismatch error exactly
  when the test \<open>abs(S - T) > 0.01\<close> holds in float arithmetic: the difference is rounded
  to a double and compared with the double that \<open>0.01\<close> denotes.  When the test fails,
  construction goes past the check: the result is that of the last step, the assembly of
  the itinerary with the reply's summary.  The test fails whenever the difference is NaN.
\<close>

theorem total_cost_check:
  assumes "llm (create_llm_prompt L sn p h atts) = Inr text" and "text \<noteq> []"
    and "parse_llm_response L text = Inr data"
    and "py_item data ''daily_plans'' = Inr v_days" and "truthy v_days"
    and "py_iter v_days = Inr days"
    and "build_days L days [] (Finite 0) = Inr (plans, S)"
    and "py_item data ''total_cost'' = Inr v_total" and "num_of v_total = Some (Inr T)"
  shows "S = float_sum (map day_float days) \<and>
    (build_itinerary L sn llm p h atts =
       Inl (ValueError ''Failed to build itinerary: Total cost mismatch in itinerary'')
     \<longleftrightarrow> float_gt (float_abs (float_minus S T)) (round_double (1 / 100))) \<and>
    (\<not> float_gt (float_abs (float_minus S T)) (round_double (1 / 100)) \<longrightarrow>
       build_itinerary L sn llm p h atts =
         (case py_item data ''summary'' of
            Inl e \<Rightarrow> Inl (ValueError (''Failed to build itinerary: '' @ exn_str e))
          | Inr v_summary \<Rightarrow>
              Inr \<lparr>itinerary.destination = trip_preferences.destination p,
                   itinerary.start_date = trip_preferences.start_date p,
                   itinerary.end_date = trip_preferences.end_date p,
                   itinerary.daily_plans = plans,
                   itinerary.total_cost = S,
                   itinerary.travel_style = trip_preferences.travel_style p,
                   itinerary.interests = trip_preferences.interests p,
                   itinerary.hotel = h,
                   itinerary.summary = v_summary\<rparr>)) \<and>
    (float_minus S T = NaN \<longrightarrow>
       \<not> float_gt (float_abs (float_minus S T)) (round_double (1 / 100)))"
proof -
  let ?beyond = "float_gt (float_abs (float_minus S T)) (round_double (1 / 100))"
  have sum: "S = float_sum (map day_float days)"
    using assms(7) by (rule build_days_sum)
  have get: "py_get data ''daily_plans'' = Inr v_days"
    using assms(4) by (rule py_item_get)
  have rec: "reconcile_response L p h text =
      (if ?beyond then Inl (ValueError ''Total cost mismatch in itinerary'')
       else ebind (py_item data ''summary'') (\<lambda>v_summary.
              Inr \<lparr>itinerary.destination = trip_preferences.destination p,
                   itinerary.start_date = trip_preferences.start_date p,
                   itinerary.end_date = trip_preferences.end_date p,
                   itinerary.daily_plans = plans,
                   itinerary.total_cost = S,
                   itinerary.travel_style = trip_preferences.travel_style p,
                   itinerary.interests = trip_preferences.interests p,
                   itinerary.hotel = h,
                   itinerary.summary = v_summary\<rparr>))"
    using assms(2-9) get by (simp add: reconcile_response_def float_sub_def)
  have b: "build_itinerary L sn llm p h atts =
      (case reconcile_response L p h text of
         Inl e \<Rightarrow> Inl (ValueError (''Failed to build itinerary: '' @ exn_str e))
       | Inr it \<Rightarrow> Inr it)"
    using assms(1) by (rule build_itinerary_of_reply)
  have past: "build_itinerary L sn llm p h atts =
         (case py_item data ''summary'' of
            Inl e \<Rightarrow> Inl (ValueError (''Failed to build itinerary: '' @ exn_str e))
          | Inr v_summary \<Rightarrow>
              Inr \<lparr>itinerary.destination = trip_preferences.destination p,
                   itinerary.start_date = trip_preferences.start_date p,
                   itinerary.end_date = trip_preferences.end_date p,
                   itinerary.daily_plans = plans,
                   itinerary.total_cost = S,
                   itinerary.travel_style = trip_preferences.travel_style p,
                   itinerary.interests = trip_preferences.interests p,
                   itinerary.hotel = h,
                   itinerary.summary = v_summary\<rparr>)"
    if "\<not> ?beyond"
    using that b rec by (cases "py_item data ''summary''") simp_all
  have abort: "build_itinerary L sn llm p h atts =
       Inl (ValueError ''Failed to build itinerary: Total cost mismatch in itinerary'')"
    if "?beyond"
    using that b rec by simp
  have other: "build_itinerary L sn llm p h atts \<noteq>
       Inl (ValueError ''Failed to build itinerary: Total cost mismatch in itinerary'')"
    if n: "\<not> ?beyond"
  proof (cases "py_item data ''summary''")
    case (Inr v)
    with past [OF n] show ?thesis by simp
  next
    case (Inl e)
    from assms(4) obtain kvs where "data = JObj kvs" by (cases data) auto
    with Inl have "e = KeyError ''summary''" by (auto split: option.splits)
    with past [OF n] Inl show ?thesis by simp
  qed
  have nan: "\<not> ?beyond" if "float_minus S T = NaN"
    using that by simp
  show ?thesis using sum past abort other nan by blast
qed

lemma mismatch_days_built:
  "build_days paris_lib
        [JObj [(''date'', JStr ''2024-06-01''), (''activities'', JArr []),
               (''total_cost'', JFloat (Finite 250))],
         JObj [(''date'', JStr ''2024-06-02''), (''activities'', JArr []),
               (''total_cost'', JFloat (Finite 250))]]
        [] (Finite 0) =
      Inr ([\<lparr>day_plan.date = DateTime 2024 6 1, day_plan.activities = [],
              day_plan.total_cost = JFloat (Finite 250), day_plan.notes = JNull\<rparr>,
            \<lparr>day_plan.date = DateTime 2024 6 2, day_plan.activities = [],
              day_plan.total_cost = JFloat (Finite 250), day_plan.notes = JNull\<rparr>], Finite 500)"
  by (simp add: build_day_def parse_day_date_def float_add_def round_double_numeral
      paris_lib_def table_lib_def paris_dates_def)

lemma mismatch_beyond:
  "float_gt (float_abs (float_minus (Finite 500) (round_double (51002 / 100))))
     (round_double (1 / 100))"
proof -
  have "float_minus (Finite 500) (round_double (51002 / 100)) =
      Finite (- (22034213020631 / 2 ^ 41))"
    using round_double_dyadic [of "- 22034213020631" 41] double_510_02
    by (simp add: float_minus_def)
  then show ?thesis by (simp only:) (simp add: double_0_01)
qed

theorem total_cost_check_witness:
  "build_itinerary paris_lib (\<lambda>n. []) (\<lambda>prompt. Inr paris_reply_text) paris_prefs None [] =
     Inr paris_itinerary \<and>
   Finite 200 = float_sum (map day_float [paris_day1, paris_day2]) \<and>
   build_itinerary paris_lib (\<lambda>n. []) (\<lambda>prompt. Inr mismatch_reply_text) paris_prefs None [] =
     Inl (ValueError ''Failed to build itinerary: Total cost mismatch in itinerary'') \<and>
   build_itinerary boundary_lib (\<lambda>n. []) (\<lambda>prompt. Inr nan_reply_text) paris_prefs None [] =
     Inr (one_day_itinerary (JFloat (Finite 100)) (Finite 100))"
proof -
  have 1: "build_itinerary paris_lib (\<lambda>n. []) (\<lambda>prompt. Inr paris_reply_text) paris_prefs None [] =
     Inr paris_itinerary \<and> Finite 200 = float_sum (map day_float [paris_day1, paris_day2])"
    using total_cost_check [of "\<lambda>prompt. Inr paris_reply_text" paris_lib "\<lambda>n. []" paris_prefs None "[]"
        paris_reply_text paris_reply_data "JArr [paris_day1, paris_day2]"
        "[paris_day1, paris_day2]" paris_plans "Finite 200" "JFloat (Finite 200)" "Finite 200"]
      paris_reply_parsed paris_days_built paris_reply_nonempty paris_tolerance
    by (simp add: paris_reply_data_def paris_itinerary_def paris_prefs_def)
  have ne: "mismatch_reply_text \<noteq> []" by (simp add: mismatch_reply_text_def)
  have 2: "build_itinerary paris_lib (\<lambda>n. []) (\<lambda>prompt. Inr mismatch_reply_text) paris_prefs None [] =
     Inl (ValueError ''Failed to build itinerary: Total cost mismatch in itinerary'')"
    using total_cost_check [of "\<lambda>prompt. Inr mismatch_reply_text" paris_lib "\<lambda>n. []" paris_prefs None "[]"
        mismatch_reply_text mismatch_reply_data _ _ _ "Finite 500"
        "JFloat (round_double (51002 / 100))" "round_double (51002 / 100)", OF _ ne
        mismatch_reply_parsed _ _ _ mismatch_days_built]
      mismatch_beyond
    by (simp add: mismatch_reply_data_def)
  have ne3: "nan_reply_text \<noteq> []" by (simp add: nan_reply_text_def)
  have d3: "build_days boundary_lib [one_day (JFloat (Finite 100))] [] (Finite 0) =
      Inr ([one_day_plan (JFloat (Finite 100))], Finite 100)"
    using one_day_built [of "Finite 100"] by (simp only: hundred_sum)
  have 3: "build_itinerary boundary_lib (\<lambda>n. []) (\<lambda>prompt. Inr nan_reply_text) paris_prefs None [] =
     Inr (one_day_itinerary (JFloat (Finite 100)) (Finite 100))"
    using total_cost_check [of "\<lambda>prompt. Inr nan_reply_text" boundary_lib "\<lambda>n. []" paris_prefs None "[]"
        nan_reply_text nan_reply_data _ _ _ "Finite 100" "JFloat NaN" NaN, OF _ ne3
        boundary_replies_parsed(3) _ _ _ d3]
    by (simp add: nan_reply_data_def one_day_reply_def one_day_itinerary_def paris_prefs_def
        float_minus_def)
  from 1 2 3 show ?thesis by simp
qed

text \<open>
  Claim C1 as stated fails at the boundary, because the test is made on doubles and not on
  the numbers that the reply writes.  The reply with one day of \<open>100.0\<close> and the total
  \<open>100.01\<close> is rejected with the mismatch error, although 100 and 100.01 differ by 0.01
  and not by more: the double read from \<open>100.01\<close> is above 100.01.  The reply with one
  day of \<open>0.01\<close> and the total \<open>0\<close> is accepted, although the float that the builder has
  accumulated, the double \<open>0.01\<close>, differs from 0 by more than the number 0.01: the
  tolerance is that same double.
\<close>

theorem total_cost_check_counterexample:
  "parse_llm_response boundary_lib hundred_reply_text =
     Inr (one_day_reply (JFloat (Finite 100)) (JFloat (round_double (10001 / 100)))) \<and>
   \<bar>(100 :: real) - 10001 / 100\<bar> \<le> 1 / 100 \<and>
   build_itinerary boundary_lib (\<lambda>n. []) (\<lambda>prompt. Inr hundred_reply_text) paris_prefs None [] =
     Inl (ValueError ''Failed to build itinerary: Total cost mismatch in itinerary'') \<and>
   parse_llm_response boundary_lib cent_reply_text =
     Inr (one_day_reply (JFloat (round_double (1 / 100))) (JInt 0)) \<and>
   round_double (1 / 100) = Finite (5764607523034235 / 2 ^ 59) \<and>
   \<bar>(5764607523034235 / 2 ^ 59 :: real) - 0\<bar> > 1 / 100 \<and>
   build_itinerary boundary_lib (\<lambda>n. []) (\<lambda>prompt. Inr cent_reply_text) paris_prefs None [] =
     Inr (one_day_itinerary (JFloat (round_double (1 / 100))) (round_double (1 / 100)))"
proof -
  have ne: "hundred_reply_text \<noteq> []" "cent_reply_text \<noteq> []"
    by (simp_all add: hundred_reply_text_def cent_reply_text_def)
  have 1: "build_itinerary boundary_lib (\<lambda>n. []) (\<lambda>prompt. Inr hundred_reply_text) paris_prefs None [] =
     Inl (ValueError ''Failed to build itinerary: Total cost mismatch in itinerary'')"
    using boundary_reply_run [of hundred_reply_text "Finite 100" "JFloat (round_double (10001 / 100))"]
      boundary_replies_parsed(1) ne(1) hundred_beyond
    by (simp add: hundred_reply_data_def round_double_numeral float_sub_def)
  have z: "int_to_float 0 = Inr (Finite 0)"
    using int_to_float_exact [of 0] by simp
  have 2: "build_itinerary boundary_lib (\<lambda>n. []) (\<lambda>prompt. Inr cent_reply_text) paris_prefs None [] =
     Inr (one_day_itinerary (JFloat (round_double (1 / 100))) (round_double (1 / 100)))"
    using boundary_reply_run [of cent_reply_text "round_double (1 / 100)" "JInt 0"]
      boundary_replies_parsed(2) ne(2) cent_within
    by (simp add: cent_reply_data_def cent_sum float_sub_def z)
  have 3: "\<bar>(100 :: real) - 10001 / 100\<bar> \<le> 1 / 100"
    "\<bar>(5764607523034235 / 2 ^ 59 :: real) - 0\<bar> > 1 / 100"
    by simp_all
  from 1 2 3 boundary_replies_parsed(1,2) double_0_01 show ?thesis
    by (simp only: hundred_reply_data_def cent_reply_data_def)
qed

text \<open>
  Claim C10.  An itinerary that \<open>build_itinerary\<close> returns has at least one daily plan, so
  the division \<open>total_cost / len(daily_plans)\<close> of the budget analysis does not divide by
  zero on it: it yields the quotient of the two floats.
\<close>

theorem built_itinerary_has_days:
  assumes "build_itinerary L sn llm p h atts = Inr it"
  shows "itinerary.daily_plans it \<noteq> [] \<and>
    average_daily_cost it =
      Inr (float_divide (itinerary.total_cost it)
             (round_double (real (length (itinerary.daily_plans it)))))"
proof -
  from assms obtain reply where "reconcile_response L p h reply = Inr it"
    by (auto simp: build_itinerary_Inr)
  then obtain v_days days plans S where
    t: "truthy v_days" "py_iter v_days = Inr days" "build_days L days [] (Finite 0) = Inr (plans, S)"
    and it: "itinerary.daily_plans it = plans"
    by (rule reconcile_response_Inr) simp
  from t(1,2) have "days \<noteq> []" by (rule truthy_iter_nonempty)
  moreover from build_days_Inr [OF t(3)] have "length plans = length days" by auto
  ultimately have "plans \<noteq> []" by auto
  with it show ?thesis by (simp add: average_daily_cost_def float_div_len_def)
qed

theorem built_itinerary_has_days_witness:
  "itinerary.daily_plans paris_itinerary \<noteq> [] \<and>
   average_daily_cost paris_itinerary = Inr (Finite 100)"
  using built_itinerary_has_days [OF paris_reply_built [of "\<lambda>n. []"]]
  by (simp add: paris_itinerary_def paris_plans_def round_double_numeral)

text \<open>
  Claim C6.  Whatever fails in the \<open>try\<close> block, \<open>build_itinerary\<close> raises one kind of
  error, a \<open>ValueError\<close> whose message is \<open>Failed to build itinerary: \<close> followed by the
  message of the cause; otherwise it returns the itinerary that the block built.  So the
  caller gets either an itinerary or that one error.  The failures of the language model
  call, of an empty reply, of the JSON decoder and of a missing list of days are shown
  with their messages.
\<close>

theorem single_error_kind:
  "(build_itinerary_try L sn llm p h atts = Inl cause \<longrightarrow>
      build_itinerary L sn llm p h atts =
        Inl (ValueError (''Failed to build itinerary: '' @ exn_str cause))) \<and>
   (build_itinerary_try L sn llm p h atts = Inr it \<longrightarrow>
      build_itinerary L sn llm p h atts = Inr it) \<and>
   ((\<exists>it'. build_itinerary L sn llm p h atts = Inr it') \<or>
    (\<exists>e. build_itinerary_try L sn llm p h atts = Inl e \<and>
       build_itinerary L sn llm p h atts =
         Inl (ValueError (''Failed to build itinerary: '' @ exn_str e)))) \<and>
   (llm (create_llm_prompt L sn p h atts) = Inl e1 \<longrightarrow>
      build_itinerary L sn llm p h atts =
        Inl (ValueError (''Failed to build itinerary: '' @ exn_str e1))) \<and>
   (llm (create_llm_prompt L sn p h atts) = Inr [] \<longrightarrow>
      build_itinerary L sn llm p h atts =
        Inl (ValueError ''Failed to build itinerary: Empty response from LLM'')) \<and>
   (llm (create_llm_prompt L sn p h atts) = Inr text \<and> text \<noteq> [] \<and>
      extract_json_str text = Inr json_str \<and> json_loads L json_str = Inl m \<longrightarrow>
      build_itinerary L sn llm p h atts =
        Inl (ValueError
          (''Failed to build itinerary: Failed to parse LLM response as JSON: '' @ m))) \<and>
   (llm (create_llm_prompt L sn p h atts) = Inr text \<and> text \<noteq> [] \<and>
      parse_llm_response L text = Inr (JObj kvs) \<and> map_of kvs ''daily_plans'' = None \<longrightarrow>
      build_itinerary L sn llm p h atts =
        Inl (ValueError ''Failed to build itinerary: No daily plans in itinerary''))"
proof (intro conjI impI)
  show "(\<exists>it'. build_itinerary L sn llm p h atts = Inr it') \<or>
    (\<exists>e. build_itinerary_try L sn llm p h atts = Inl e \<and>
       build_itinerary L sn llm p h atts =
         Inl (ValueError (''Failed to build itinerary: '' @ exn_str e)))"
    by (cases "build_itinerary_try L sn llm p h atts") (simp_all add: build_itinerary_def)
qed (auto simp: build_itinerary_def build_itinerary_try_def reconcile_response_def
      parse_llm_response_def)

theorem single_error_kind_witness:
  "build_itinerary paris_lib (\<lambda>n. []) failing_llm paris_prefs None [] =
     Inl (ValueError ''Failed to build itinerary: Connection error.'') \<and>
   build_itinerary paris_lib (\<lambda>n. []) (\<lambda>prompt. Inr []) paris_prefs None [] =
     Inl (ValueError ''Failed to build itinerary: Empty response from LLM'') \<and>
   build_itinerary paris_lib (\<lambda>n. []) (\<lambda>prompt. Inr ''Sorry, no plan.'') paris_prefs None [] =
     Inl (ValueError
       ''Failed to build itinerary: Failed to parse LLM response as JSON: Expecting value'') \<and>
   build_itinerary empty_object_lib (\<lambda>n. []) (\<lambda>prompt. Inr ''{}'') paris_prefs None [] =
     Inl (ValueError ''Failed to build itinerary: No daily plans in itinerary'') \<and>
   build_itinerary paris_lib (\<lambda>n. []) (\<lambda>prompt. Inr paris_reply_text) paris_prefs None [] =
     Inr paris_itinerary"
proof -
  note t = single_error_kind [where sn = "\<lambda>n. []" and p = paris_prefs and h = None and atts = "[]"]
  have 1: "build_itinerary paris_lib (\<lambda>n. []) failing_llm paris_prefs None [] =
     Inl (ValueError ''Failed to build itinerary: Connection error.'')"
    using t [of paris_lib failing_llm "OtherError ''Connection error.''" _ "OtherError ''Connection error.''"]
    by (simp add: failing_llm_def build_itinerary_try_def)
  have 2: "build_itinerary paris_lib (\<lambda>n. []) (\<lambda>prompt. Inr []) paris_prefs None [] =
     Inl (ValueError ''Failed to build itinerary: Empty response from LLM'')"
    using t [of paris_lib "\<lambda>prompt. Inr []"] by simp
  have x: \<open>extract_json_str ''Sorry, no plan.'' = Inr ''Sorry, no plan.''\<close>
    by (rule extract_no_fence) simp
  have l: "json_loads paris_lib ''Sorry, no plan.'' = Inl ''Expecting value''"
    by (simp add: paris_lib_def table_lib_def paris_reply_text_def mismatch_reply_text_def)
  have 3: "build_itinerary paris_lib (\<lambda>n. []) (\<lambda>prompt. Inr ''Sorry, no plan.'') paris_prefs None [] =
     Inl (ValueError
       ''Failed to build itinerary: Failed to parse LLM response as JSON: Expecting value'')"
    using t [of paris_lib "\<lambda>prompt. Inr ''Sorry, no plan.''" _ _ _ "''Sorry, no plan.''"
        "''Sorry, no plan.''" "''Expecting value''"] x l
    by simp
  have p: "parse_llm_response empty_object_lib ''{}'' = Inr (JObj [])"
    using extract_no_fence [of "''{}''"]
    by (simp add: parse_llm_response_def empty_object_lib_def table_lib_def)
  have 4: "build_itinerary empty_object_lib (\<lambda>n. []) (\<lambda>prompt. Inr ''{}'') paris_prefs None [] =
     Inl (ValueError ''Failed to build itinerary: No daily plans in itinerary'')"
    using t [of empty_object_lib "\<lambda>prompt. Inr ''{}''" _ _ _ "''{}''" _ _ "[]"] p
    by simp
  have 5: "build_itinerary paris_lib (\<lambda>n. []) (\<lambda>prompt. Inr paris_reply_text) paris_prefs None [] =
     Inr paris_itinerary"
    using t [of paris_lib "\<lambda>prompt. Inr paris_reply_text" _ paris_itinerary]
      paris_reply_built [of "\<lambda>n. []"]
    by (simp add: build_itinerary_def split: sum.splits)
  from 1 2 3 4 5 show ?thesis by simp
qed




















section \<open>Properties of the preference parser\<close>

lemma check_required_missing:
  "f \<in> set fs \<Longrightarrow> map_of ui f = None \<Longrightarrow>
     \<exists>g. g \<in> set fs \<and> map_of ui g = None \<and>
       check_required (JObj ui) fs = Inl (ValueError (''Missing required field: '' @ g))"
proof (induction fs)
  case Nil
  then show ?case by simp
next
  case (Cons a fs)
  show ?case
  proof (cases "map_of ui a")
    case None
    then show ?thesis by auto
  next
    case (Some v)
    with Cons.prems have "f \<in> set fs" by auto
    from Cons.IH [OF this Cons.prems(2)] Some show ?thesis by auto
  qed
qed

lemma check_required_present:
  "list_all (\<lambda>f. map_of ui f \<noteq> None) fs \<Longrightarrow> check_required (JObj ui) fs = Inr ()"
  by (induction fs) auto

lemma parse_trip_preferences_error:
  "parse_trip_preferences_try L state = Inl e \<Longrightarrow>
     parse_trip_preferences L state = state(''error'' \<mapsto> PJson (JStr (exn_str e)))"
  by (simp add: parse_trip_preferences_def)

lemma budget_not_positive:
  assumes "map_of ui ''budget'' = Some v" and "py_float L v = Inr b"
    and "\<not> float_gt b (Finite 0)"
  shows "parse_budget L (JObj ui) = Inl (ValueError ''Invalid budget value'')"
  using assms by (simp add: parse_budget_def validate_budget_def)

lemma try_needs_budget:
  "parse_trip_preferences_try L state = Inr state' \<Longrightarrow>
     \<exists>ui b. get_user_input state = Inr ui \<and> parse_budget L ui = Inr b"
  by (auto simp: parse_trip_preferences_try_def ebind_Inr_iff split: if_splits)

text \<open>
  Claim C8.  With the form in the state: a required field that is missing is reported
  with the message \<open>Missing required field\<close> and its name; with all required fields and
  two dates that parse, a start date that is not before the end date is reported with
  the message \<open>End date must be after start date\<close>; a budget that as a float is not
  greater than zero (it is zero, or negative, or NaN) is always reported, with the message
  \<open>Invalid budget value\<close> when the fields and dates pass.  In each case the result is the
  given state with the entry \<open>error\<close> added: no parsed field is written.
\<close>

theorem preference_validation:
  "(state ''user_input'' = Some (PJson (JObj ui)) \<and> f \<in> set required_fields \<and>
      map_of ui f = None \<longrightarrow>
      (\<exists>g. g \<in> set required_fields \<and> map_of ui g = None \<and>
         parse_trip_preferences L state =
           state(''error'' \<mapsto> PJson (JStr (''Missing required field: '' @ g))))) \<and>
   (state ''user_input'' = Some (PJson (JObj ui)) \<and>
      list_all (\<lambda>f. map_of ui f \<noteq> None) required_fields \<and>
      map_of ui ''start_date'' = Some (JStr s1) \<and> map_of ui ''end_date'' = Some (JStr s2) \<and>
      strptime_ymd L s1 = Inr d1 \<and> strptime_ymd L s2 = Inr d2 \<and> \<not> datetime_less d1 d2 \<longrightarrow>
      parse_trip_preferences L state =
        state(''error'' \<mapsto> PJson (JStr ''End date must be after start date''))) \<and>
   (state ''user_input'' = Some (PJson (JObj ui)) \<and>
      map_of ui ''budget'' = Some v \<and> py_float L v = Inr b \<and> \<not> float_gt b (Finite 0) \<longrightarrow>
      (\<exists>m. parse_trip_preferences L state = state(''error'' \<mapsto> PJson (JStr m)))) \<and>
   (state ''user_input'' = Some (PJson (JObj ui)) \<and>
      list_all (\<lambda>f. map_of ui f \<noteq> None) required_fields \<and>
      map_of ui ''start_date'' = Some (JStr s1) \<and> map_of ui ''end_date'' = Some (JStr s2) \<and>
      strptime_ymd L s1 = Inr d1 \<and> strptime_ymd L s2 = Inr d2 \<and> datetime_less d1 d2 \<and>
      map_of ui ''budget'' = Some v \<and> py_float L v = Inr b \<and> \<not> float_gt b (Finite 0) \<longrightarrow>
      parse_trip_preferences L state =
        state(''error'' \<mapsto> PJson (JStr ''Invalid budget value'')))"
proof (intro conjI impI)
  assume a: "state ''user_input'' = Some (PJson (JObj ui)) \<and> f \<in> set required_fields \<and>
      map_of ui f = None"
  then obtain g where g: "g \<in> set required_fields" "map_of ui g = None"
    "check_required (JObj ui) required_fields = Inl (ValueError (''Missing required field: '' @ g))"
    using check_required_missing by blast
  with a have "parse_trip_preferences_try L state =
      Inl (ValueError (''Missing required field: '' @ g))"
    by (simp add: parse_trip_preferences_try_def get_user_input_def)
  from parse_trip_preferences_error [OF this] g
  show "\<exists>g. g \<in> set required_fields \<and> map_of ui g = None \<and>
         parse_trip_preferences L state =
           state(''error'' \<mapsto> PJson (JStr (''Missing required field: '' @ g)))"
    by auto
next
  assume a: "state ''user_input'' = Some (PJson (JObj ui)) \<and>
      list_all (\<lambda>f. map_of ui f \<noteq> None) required_fields \<and>
      map_of ui ''start_date'' = Some (JStr s1) \<and> map_of ui ''end_date'' = Some (JStr s2) \<and>
      strptime_ymd L s1 = Inr d1 \<and> strptime_ymd L s2 = Inr d2 \<and> \<not> datetime_less d1 d2"
  then have "check_required (JObj ui) required_fields = Inr ()"
    using check_required_present by blast
  with a have "parse_trip_preferences_try L state =
      Inl (ValueError ''End date must be after start date'')"
    by (simp add: parse_trip_preferences_try_def get_user_input_def parse_date_def)
  from parse_trip_preferences_error [OF this]
  show "parse_trip_preferences L state =
        state(''error'' \<mapsto> PJson (JStr ''End date must be after start date''))"
    by simp
next
  assume a: "state ''user_input'' = Some (PJson (JObj ui)) \<and>
      map_of ui ''budget'' = Some v \<and> py_float L v = Inr b \<and> \<not> float_gt b (Finite 0)"
  then have pb: "parse_budget L (JObj ui) = Inl (ValueError ''Invalid budget value'')"
    using budget_not_positive by blast
  from a have ui: "get_user_input state = Inr (JObj ui)"
    by (simp add: get_user_input_def)
  show "\<exists>m. parse_trip_preferences L state = state(''error'' \<mapsto> PJson (JStr m))"
  proof (cases "parse_trip_preferences_try L state")
    case (Inl e)
    from parse_trip_preferences_error [OF this] show ?thesis by blast
  next
    case (Inr state')
    from try_needs_budget [OF this] ui pb show ?thesis by auto
  qed
next
  assume a: "state ''user_input'' = Some (PJson (JObj ui)) \<and>
      list_all (\<lambda>f. map_of ui f \<noteq> None) required_fields \<and>
      map_of ui ''start_date'' = Some (JStr s1) \<and> map_of ui ''end_date'' = Some (JStr s2) \<and>
      strptime_ymd L s1 = Inr d1 \<and> strptime_ymd L s2 = Inr d2 \<and> datetime_less d1 d2 \<and>
      map_of ui ''budget'' = Some v \<and> py_float L v = Inr b \<and> \<not> float_gt b (Finite 0)"
  then have "check_required (JObj ui) required_fields = Inr ()"
    using check_required_present by blast
  moreover from a have "parse_budget L (JObj ui) = Inl (ValueError ''Invalid budget value'')"
    using budget_not_positive by blast
  ultimately have "parse_trip_preferences_try L state =
      Inl (ValueError ''Invalid budget value'')"
    using a by (simp add: parse_trip_preferences_try_def get_user_input_def parse_date_def)
  from parse_trip_preferences_error [OF this]
  show "parse_trip_preferences L state =
        state(''error'' \<mapsto> PJson (JStr ''Invalid budget value''))"
    by simp
qed

theorem preference_validation_witness:
  "parse_trip_preferences dates_lib (form_state form_without_budget) =
     (form_state form_without_budget)
       (''error'' \<mapsto> PJson (JStr ''Missing required field: budget'')) \<and>
   parse_trip_preferences dates_lib (form_state (trip_form (JInt 2000) ''2024-06-01'')) =
     (form_state (trip_form (JInt 2000) ''2024-06-01''))
       (''error'' \<mapsto> PJson (JStr ''End date must be after start date'')) \<and>
   parse_trip_preferences dates_lib (form_state (trip_form (JInt 0) ''2024-06-07'')) =
     (form_state (trip_form (JInt 0) ''2024-06-07''))
       (''error'' \<mapsto> PJson (JStr ''Invalid budget value'')) \<and>
   parse_trip_preferences dates_lib (form_state (trip_form (JInt (- 50)) ''2024-06-07'')) =
     (form_state (trip_form (JInt (- 50)) ''2024-06-07''))
       (''error'' \<mapsto> PJson (JStr ''Invalid budget value'')) \<and>
   parse_trip_preferences dates_lib (form_state (trip_form (JFloat NaN) ''2024-06-07'')) =
     (form_state (trip_form (JFloat NaN) ''2024-06-07''))
       (''error'' \<mapsto> PJson (JStr ''Invalid budget value''))"
proof -
  note t = preference_validation [where L = dates_lib]
  have d: "strptime_ymd dates_lib ''2024-06-01'' = Inr (DateTime 2024 6 1)"
    "strptime_ymd dates_lib ''2024-06-07'' = Inr (DateTime 2024 6 7)"
    by (simp_all add: dates_lib_def table_lib_def paris_dates_def)
  have 1: "parse_trip_preferences dates_lib (form_state form_without_budget) =
     (form_state form_without_budget)
       (''error'' \<mapsto> PJson (JStr ''Missing required field: budget''))"
  proof -
    have "form_state form_without_budget ''user_input'' = Some (PJson (JObj form_without_budget))"
      "''budget'' \<in> set required_fields" "map_of form_without_budget ''budget'' = None"
      by (simp_all add: form_state_def required_fields_def form_without_budget_def)
    with t [of "form_state form_without_budget" form_without_budget "''budget''"]
    obtain g where "g \<in> set required_fields" "map_of form_without_budget g = None"
      "parse_trip_preferences dates_lib (form_state form_without_budget) =
         (form_state form_without_budget)
           (''error'' \<mapsto> PJson (JStr (''Missing required field: '' @ g)))"
      by blast
    moreover from this(1,2) have "g = ''budget''"
      by (auto simp: required_fields_def form_without_budget_def)
    ultimately show ?thesis by simp
  qed
  have 2: "parse_trip_preferences dates_lib (form_state (trip_form (JInt 2000) ''2024-06-01'')) =
     (form_state (trip_form (JInt 2000) ''2024-06-01''))
       (''error'' \<mapsto> PJson (JStr ''End date must be after start date''))"
    using t [of "form_state (trip_form (JInt 2000) ''2024-06-01'')"
        "trip_form (JInt 2000) ''2024-06-01''" _ "''2024-06-01''" "''2024-06-01''"
        "DateTime 2024 6 1" "DateTime 2024 6 1"] d
    by (simp add: form_state_def trip_form_def required_fields_def datetime_less_def)
  have 3: "parse_trip_preferences dates_lib (form_state (trip_form v ''2024-06-07'')) =
     (form_state (trip_form v ''2024-06-07''))
       (''error'' \<mapsto> PJson (JStr ''Invalid budget value''))"
    if "py_float dates_lib v = Inr b" "\<not> float_gt b (Finite 0)" for v b
    using t [of "form_state (trip_form v ''2024-06-07'')"
        "trip_form v ''2024-06-07''" _ "''2024-06-01''" "''2024-06-07''"
        "DateTime 2024 6 1" "DateTime 2024 6 7" v b] d that
    by (simp add: form_state_def trip_form_def required_fields_def datetime_less_def)
  have f: "py_float dates_lib (JInt 0) = Inr (Finite 0)"
    "py_float dates_lib (JInt (- 50)) = Inr (Finite (- 50))"
    "py_float dates_lib (JFloat NaN) = Inr NaN"
    using int_to_float_exact [of 0] int_to_float_exact [of "- 50"]
    by (simp_all add: py_float_def)
  from 1 2 3 [OF f(1)] 3 [OF f(2)] 3 [OF f(3)] show ?thesis by simp
qed

text \<open>The form of the program's own example is accepted: the parsed fields replace the
  form in the state and no error is recorded.\<close>

lemma parse_trip_preferences_example:
  "parse_trip_preferences dates_lib (form_state (trip_form (JInt 2000) ''2024-06-07'')) =
     map_of
       [(''destination'', PJson (JStr ''Paris'')),
        (''start_date'', PDate (DateTime 2024 6 1)),
        (''end_date'', PDate (DateTime 2024 6 7)),
        (''budget'', PJson (JFloat (Finite 2000))),
        (''travel_style'', PJson (JStr ''moderate'')),
        (''interests'', PJson (JArr [JStr ''culture'', JStr ''food'', JStr ''art''])),
        (''accommodation_preference'', PJson (JStr ''hotel'')),
        (''transportation_preference'', PJson (JStr ''mixed'')),
        (''dietary_restrictions'', PJson JNull),
        (''special_requirements'', PJson JNull),
        (''destination_insights'', PJson JNull),
        (''personalized_recommendations'', PJson JNull)]"
  using int_to_float_exact [of 2000]
  by (intro ext)
     (simp add: parse_trip_preferences_def parse_trip_preferences_try_def get_user_input_def
       form_state_def trip_form_def required_fields_def parse_date_def parse_budget_def
       py_float_def validate_budget_def datetime_less_def dates_lib_def table_lib_def
       paris_dates_def map_add_def)

section \<open>Properties of the hotel search\<close>

lemma sort_by_rating_sorted:
  "sorted_wrt (\<lambda>a b. rating_key a \<ge> rating_key b) (sort_by_rating hotels)"
proof -
  have "sorted (map (\<lambda>h. - rating_key h) (sort_by_rating hotels))"
    unfolding sort_by_rating_def by (rule sorted_sort_key)
  then show ?thesis by (simp add: sorted_map)
qed

lemma sort_by_rating_mset: "mset (sort_by_rating hotels) = mset hotels"
  by (simp add: sort_by_rating_def)

lemma search_hotels_Inr:
  assumes "search_hotels L post p n = Inr hs"
  obtains response data results rs hotels where
    "post (hotel_query L p) n = Inr response" "raise_for_status response = Inr ()"
    "json_body response = Inr data"
    "py_get_default data ''results'' (JArr []) = Inr results" "truthy results"
    "py_iter results = Inr rs"
    "map_exn (parse_hotel_from_search_result L) rs = Inr hotels"
    "hs = sort_by_rating hotels"
proof -
  from assms have "search_hotels_try L post p n = Inr hs"
    by (simp add: search_hotels_def split: sum.splits)
  then show thesis
    by (auto simp: search_hotels_try_def ebind_Inr_iff
        split: if_splits sum.splits option.splits intro: that)
qed

lemma search_hotels_found:
  assumes "trip_preferences.destination p \<noteq> []"
    and "post (hotel_query L p) n = Inr response"
    and "status_code response < 400 \<or> 600 \<le> status_code response"
    and "json_body response = Inr (JObj kvs)" and "map_of kvs ''results'' = Some (JArr rs)"
    and "rs \<noteq> []" and "map_exn (parse_hotel_from_search_result L) rs = Inr hotels"
  shows "search_hotels L post p n = Inr (sort_by_rating hotels)"
  using assms by (auto simp: search_hotels_def search_hotels_try_def raise_for_status_def)

text \<open>
  Claim C9, as the code has it.  A list that \<open>search_hotels\<close> returns is not empty, holds
  the hotels parsed from the search results, and is in descending order of rating, a hotel
  without rating counting as 0; a non-empty list of results that all parse, in an answer
  whose status is not an error status, is answered with that sorted list.  Every failure
  is a \<open>HotelSearchError\<close>: a failure of the transport, an answer with a client or server
  error status (400 to 599), and an answer without results or with an empty list of
  results each end in one.
\<close>

theorem hotels_sorted_by_rating:
  "(search_hotels L post p n = Inr hs \<longrightarrow>
      hs \<noteq> [] \<and>
      sorted_wrt (\<lambda>a b. (case hotel.rating a of None \<Rightarrow> 0 | Some r \<Rightarrow> r) \<ge>
                        (case hotel.rating b of None \<Rightarrow> 0 | Some r \<Rightarrow> r)) hs \<and>
      (\<exists>response data results rs hotels.
         post (hotel_query L p) n = Inr response \<and> json_body response = Inr data \<and>
         py_get_default data ''results'' (JArr []) = Inr results \<and>
         py_iter results = Inr rs \<and>
         map_exn (parse_hotel_from_search_result L) rs = Inr hotels \<and>
         mset hs = mset hotels)) \<and>
   (trip_preferences.destination p \<noteq> [] \<and>
      post (hotel_query L p) n = Inr response \<and>
      (status_code response < 400 \<or> 600 \<le> status_code response) \<and>
      json_body response = Inr (JObj kvs) \<and> map_of kvs ''results'' = Some (JArr rs) \<and>
      rs \<noteq> [] \<and> map_exn (parse_hotel_from_search_result L) rs = Inr hotels \<longrightarrow>
      search_hotels L post p n = Inr (sort_by_rating hotels)) \<and>
   (search_hotels L post p n = Inl e \<longrightarrow> (\<exists>msg. e = HotelSearchError msg)) \<and>
   (trip_preferences.destination p \<noteq> [] \<and> post (hotel_query L p) n = Inl m \<longrightarrow>
      search_hotels L post p n = Inl (HotelSearchError (''API request failed: '' @ m))) \<and>
   (trip_preferences.destination p \<noteq> [] \<and>
      post (hotel_query L p) n = Inr response \<and>
      400 \<le> status_code response \<and> status_code response < 600 \<longrightarrow>
      search_hotels L post p n =
        Inl (HotelSearchError (''API request failed: '' @ status_text response))) \<and>
   (trip_preferences.destination p \<noteq> [] \<and>
      post (hotel_query L p) n = Inr response \<and>
      (status_code response < 400 \<or> 600 \<le> status_code response) \<and>
      json_body response = Inr (JObj kvs) \<and>
      (map_of kvs ''results'' = None \<or> map_of kvs ''results'' = Some (JArr [])) \<longrightarrow>
      search_hotels L post p n =
        Inl (HotelSearchError ''Unexpected error: No hotels found matching your criteria''))"
proof (intro conjI impI)
  assume a: "search_hotels L post p n = Inr hs"
  then obtain response data results rs hotels where
    r: "post (hotel_query L p) n = Inr response" "json_body response = Inr data"
    "py_get_default data ''results'' (JArr []) = Inr results" "truthy results"
    "py_iter results = Inr rs"
    "map_exn (parse_hotel_from_search_result L) rs = Inr hotels"
    "hs = sort_by_rating hotels"
    by (rule search_hotels_Inr)
  from r(4,5) have "rs \<noteq> []" by (rule truthy_iter_nonempty)
  moreover from r(6) have "length hotels = length rs"
    by (simp add: map_exn_Inr_iff list_all2_lengthD)
  ultimately have "hotels \<noteq> []" by auto
  then have "mset hs \<noteq> {#}" using r(7) by (simp add: sort_by_rating_mset)
  then show "hs \<noteq> []" by auto
  show "sorted_wrt (\<lambda>a b. (case hotel.rating a of None \<Rightarrow> 0 | Some r \<Rightarrow> r) \<ge>
                        (case hotel.rating b of None \<Rightarrow> 0 | Some r \<Rightarrow> r)) hs"
    using sort_by_rating_sorted [of hotels] r(7) by (simp add: rating_key_def)
  show "\<exists>response data results rs hotels.
         post (hotel_query L p) n = Inr response \<and> json_body response = Inr data \<and>
         py_get_default data ''results'' (JArr []) = Inr results \<and>
         py_iter results = Inr rs \<and>
         map_exn (parse_hotel_from_search_result L) rs = Inr hotels \<and>
         mset hs = mset hotels"
    using r by (auto simp: sort_by_rating_mset)
next
  assume "trip_preferences.destination p \<noteq> [] \<and>
      post (hotel_query L p) n = Inr response \<and>
      (status_code response < 400 \<or> 600 \<le> status_code response) \<and>
      json_body response = Inr (JObj kvs) \<and> map_of kvs ''results'' = Some (JArr rs) \<and>
      rs \<noteq> [] \<and> map_exn (parse_hotel_from_search_result L) rs = Inr hotels"
  then show "search_hotels L post p n = Inr (sort_by_rating hotels)"
    using search_hotels_found by blast
next
  assume "search_hotels L post p n = Inl e"
  then show "\<exists>msg. e = HotelSearchError msg"
    by (auto simp: search_hotels_def split: sum.splits)
qed (auto simp: search_hotels_def search_hotels_try_def raise_for_status_def)

lemma sample_hotels_parsed:
  "map_exn (parse_hotel_from_search_result hotels_lib) [unrated_result, rated_result] =
     Inr [unrated_hotel, rated_hotel]"
proof -
  have 1: "parse_hotel_from_search_result hotels_lib unrated_result = Inr unrated_hotel"
    by (simp add: parse_hotel_from_search_result_def unrated_result_def unrated_hotel_def
        split_first_def split_str.simps list_item_def as_text_def extract_price_def
        extract_rating_def find_amenities_def amenity_keywords_def hotels_lib_def table_lib_def
        price_pattern_def rating_pattern_def)
  have 2: "parse_hotel_from_search_result hotels_lib rated_result = Inr rated_hotel"
    by (simp add: parse_hotel_from_search_result_def rated_result_def rated_hotel_def
        split_first_def split_str.simps list_item_def as_text_def extract_price_def
        extract_rating_def find_amenities_def amenity_keywords_def hotels_lib_def table_lib_def
        price_pattern_def rating_pattern_def)
  from 1 2 show ?thesis by simp
qed

theorem hotels_sorted_by_rating_witness:
  "search_hotels hotels_lib two_hotels_post paris_prefs 5 = Inr [rated_hotel, unrated_hotel] \<and>
   search_hotels hotels_lib timeout_post paris_prefs 5 =
     Inl (HotelSearchError ''API request failed: Connection timed out'') \<and>
   search_hotels hotels_lib not_found_post paris_prefs 5 =
     Inl (HotelSearchError ''API request failed: 404 Client Error: Not Found'') \<and>
   search_hotels hotels_lib no_hotels_post paris_prefs 5 =
     Inl (HotelSearchError ''Unexpected error: No hotels found matching your criteria'')"
proof -
  note t = hotels_sorted_by_rating [where L = hotels_lib and p = paris_prefs and n = 5]
  have dest: "trip_preferences.destination paris_prefs \<noteq> []"
    by (simp add: paris_prefs_def)
  have s: "sort_by_rating [unrated_hotel, rated_hotel] = [rated_hotel, unrated_hotel]"
    by (simp add: sort_by_rating_def rating_key_def unrated_hotel_def rated_hotel_def)
  have 1: "search_hotels hotels_lib two_hotels_post paris_prefs 5 = Inr [rated_hotel, unrated_hotel]"
    using t [of two_hotels_post _
        "HttpResponse 200 ''200 OK''
           (Inr (JObj [(''results'', JArr [unrated_result, rated_result])]))"
        "[(''results'', JArr [unrated_result, rated_result])]" "[unrated_result, rated_result]"
        "[unrated_hotel, rated_hotel]"]
      dest sample_hotels_parsed s
    by (simp add: two_hotels_post_def)
  have 2: "search_hotels hotels_lib timeout_post paris_prefs 5 =
     Inl (HotelSearchError ''API request failed: Connection timed out'')"
    using t [of timeout_post _ _ _ _ _ _ "''Connection timed out''"] dest
    by (simp add: timeout_post_def)
  have 3: "search_hotels hotels_lib not_found_post paris_prefs 5 =
     Inl (HotelSearchError ''API request failed: 404 Client Error: Not Found'')"
    using t [of not_found_post _
        "HttpResponse 404 ''404 Client Error: Not Found'' (Inl ''Expecting value'')"] dest
    by (simp add: not_found_post_def)
  have 4: "search_hotels hotels_lib no_hotels_post paris_prefs 5 =
     Inl (HotelSearchError ''Unexpected error: No hotels found matching your criteria'')"
    using t [of no_hotels_post _ "HttpResponse 200 ''200 OK'' (Inr (JObj [(''results'', JArr [])]))"
        "[(''results'', JArr [])]"] dest
    by (simp add: no_hotels_post_def)
  from 1 2 3 4 show ?thesis by simp
qed

text \<open>
  Claim C9 as stated fails for the statuses that are neither a success nor an error:
  \<open>raise_for_status\<close> raises from 400 on only.  An answer with the status 300 that
  carries two results is answered with the sorted list of the two hotels.
\<close>

theorem hotels_sorted_by_rating_counterexample:
  "multiple_choices_post (hotel_query hotels_lib paris_prefs) 5 =
     Inr (HttpResponse 300 ''300 Multiple Choices''
            (Inr (JObj [(''results'', JArr [unrated_result, rated_result])]))) \<and>
   \<not> (200 \<le> (300 :: nat) \<and> (300 :: nat) < 300) \<and>
   search_hotels hotels_lib multiple_choices_post paris_prefs 5 =
     Inr [rated_hotel, unrated_hotel]"
proof -
  have "sort_by_rating [unrated_hotel, rated_hotel] = [rated_hotel, unrated_hotel]"
    by (simp add: sort_by_rating_def rating_key_def unrated_hotel_def rated_hotel_def)
  then have "search_hotels hotels_lib multiple_choices_post paris_prefs 5 =
      Inr [rated_hotel, unrated_hotel]"
    using search_hotels_found [of paris_prefs multiple_choices_post hotels_lib 5
        "HttpResponse 300 ''300 Multiple Choices''
           (Inr (JObj [(''results'', JArr [unrated_result, rated_result])]))"
        "[(''results'', JArr [unrated_result, rated_result])]" "[unrated_result, rated_result]"
        "[unrated_hotel, rated_hotel]"]
      sample_hotels_parsed
    by (simp add: multiple_choices_post_def paris_prefs_def)
  then show ?thesis by (simp add: multiple_choices_post_def)
qed

end
